theory Spec2Isabelle
  imports Main "HOL-Library.Word"
begin

section \<open>Values of the JavaScript runtime\<close>

text \<open>
  A \<open>Uint8Array\<close> is a list of 8-bit words; a store into one keeps the value modulo 256.
  A \<open>bigint\<close> is an \<open>int\<close>. A \<open>Number\<close> is needed only where it holds an integer
  (a timestamp, a code, a count) or an infinity that \<open>Number(bigint)\<close> overflowed to.
  Strings are lists of 8-bit characters.
\<close>

type_synonym byte = "8 word"
type_synonym bytes = "byte list"

datatype number = Num int | Infinity | NegInfinity

datatype error =
    CannotDecodeEmptyBytes
  | InvalidRLPExpectedList
  | InvalidRLPMissingVersion
  | UnsupportedTransactionVersion
  | InvalidSignatureLength nat
  | UnknownNetworkCode
  | UnknownTxVersionCode
  | UnknownTxTypeCode
  | UnknownTxPayloadTypeCode
  | UnknownPayloadType
  | InvalidPayloadExpectedList
  | InvalidAddressLength nat
  | InvalidHashLength nat
  | AddressMustBe20Bytes nat
  | HashMustBe32Bytes nat
  | SignatureMustBe65Bytes nat
  | InvalidRecoveryId
  | TxBuilderError string
  | TypeError
  | RangeError
  | SyntaxError
  | RLPDecodeError
  | Secp256k1Error

text \<open>Sequencing of computations that may throw: the first error ends the computation.\<close>

definition bindE :: "error + 'a \<Rightarrow> ('a \<Rightarrow> error + 'b) \<Rightarrow> error + 'b" where
  "bindE m f = (case m of Inl e \<Rightarrow> Inl e | Inr x \<Rightarrow> f x)"

subsection \<open>Built-ins: parseInt, toString(16), padStart, toLowerCase, BigInt, Number\<close>

definition isStrWhiteSpaceChar :: "char \<Rightarrow> bool" where
  "isStrWhiteSpaceChar c \<longleftrightarrow> (of_char c :: nat) \<in> {9, 10, 11, 12, 13, 32, 160}"

definition hexDigitValue :: "char \<Rightarrow> nat option" where
  "hexDigitValue c =
     (let n = (of_char c :: nat) in
      if 48 \<le> n \<and> n \<le> 57 then Some (n - 48)
      else if 97 \<le> n \<and> n \<le> 102 then Some (n - 87)
      else if 65 \<le> n \<and> n \<le> 70 then Some (n - 55)
      else None)"

definition isHexDigit :: "char \<Rightarrow> bool" where
  "isHexDigit c \<longleftrightarrow> hexDigitValue c \<noteq> None"

definition hexValue :: "string \<Rightarrow> nat" where
  "hexValue ds = foldl (\<lambda>acc c. 16 * acc + (case hexDigitValue c of Some d \<Rightarrow> d | None \<Rightarrow> 0)) 0 ds"

text \<open>\<open>parseInt(str, 16)\<close>; \<open>None\<close> is NaN.\<close>

definition parseInt16 :: "string \<Rightarrow> int option" where
  "parseInt16 str =
     (let s1 = dropWhile isStrWhiteSpaceChar str;
          sign = (if take 1 s1 = ''-'' then - 1 else (1::int));
          s2 = (if take 1 s1 = ''-'' \<or> take 1 s1 = ''+'' then drop 1 s1 else s1);
          s3 = (if take 2 s2 = ''0x'' \<or> take 2 s2 = ''0X'' then drop 2 s2 else s2);
          z = takeWhile isHexDigit s3
      in if z = [] then None else Some (sign * int (hexValue z)))"

text \<open>The store of a Number into a \<open>Uint8Array\<close> element: NaN becomes 0, an integer is reduced modulo 256.\<close>

definition toUint8 :: "int option \<Rightarrow> byte" where
  "toUint8 v = (case v of None \<Rightarrow> 0 | Some n \<Rightarrow> word_of_int n)"

definition hexChar :: "nat \<Rightarrow> char" where
  "hexChar d = (if d < 10 then char_of (48 + d) else char_of (87 + d))"

text \<open>\<open>n.toString(16)\<close> of a non-negative integer, and of a \<open>bigint\<close>.\<close>

fun toString16 :: "nat \<Rightarrow> string" where
  "toString16 n = (if n < 16 then [hexChar n] else toString16 (n div 16) @ [hexChar (n mod 16)])"

declare toString16.simps [simp del]

definition bigintToString16 :: "int \<Rightarrow> string" where
  "bigintToString16 v = (if v < 0 then CHR ''-'' # toString16 (nat (- v)) else toString16 (nat v))"

definition padStart :: "nat \<Rightarrow> char \<Rightarrow> string \<Rightarrow> string" where
  "padStart n c s = replicate (n - length s) c @ s"

definition toLowerCaseChar :: "char \<Rightarrow> char" where
  "toLowerCaseChar c =
     (let n = (of_char c :: nat) in
      if (65 \<le> n \<and> n \<le> 90) \<or> (192 \<le> n \<and> n \<le> 222 \<and> n \<noteq> 215) then char_of (n + 32) else c)"

definition toLowerCase :: "string \<Rightarrow> string" where
  "toLowerCase s = map toLowerCaseChar s"

text \<open>
  \<open>BigInt(str)\<close> for a hexadecimal literal \<open>0x...\<close>, the only strings the sources pass
  (always a result of \<open>bytesToHex\<close>). \<open>BigInt('0x')\<close> raises a SyntaxError.
\<close>

definition BigInt_hex :: "string \<Rightarrow> error + int" where
  "BigInt_hex s =
     (if take 2 s = ''0x'' \<and> drop 2 s \<noteq> [] \<and> list_all isHexDigit (drop 2 s)
      then Inr (int (hexValue (drop 2 s)))
      else Inl SyntaxError)"

text \<open>\<open>BigInt(n)\<close> of a Number: an infinity raises a RangeError.\<close>

definition BigInt_number :: "number \<Rightarrow> error + int" where
  "BigInt_number n = (case n of Num i \<Rightarrow> Inr i | Infinity \<Rightarrow> Inl RangeError | NegInfinity \<Rightarrow> Inl RangeError)"

fun bitLength :: "nat \<Rightarrow> nat" where
  "bitLength n = (if n = 0 then 0 else Suc (bitLength (n div 2)))"

declare bitLength.simps [simp del]

text \<open>
  \<open>Number(v)\<close> of a \<open>bigint\<close>: exact below \<open>2^53\<close>, otherwise rounded to 53 significant bits
  (ties to even), and an infinity from \<open>2^1024\<close> on.
\<close>

definition Number_bigint :: "int \<Rightarrow> number" where
  "Number_bigint v =
     (let a = nat \<bar>v\<bar>;
          e = bitLength a - 53;
          q = a div 2 ^ e;
          r = a mod 2 ^ e;
          q' = (if e = 0 then q
                else if r > 2 ^ (e - 1) \<or> (r = 2 ^ (e - 1) \<and> odd q) then q + 1 else q);
          m = q' * 2 ^ e
      in if m \<ge> 2 ^ 1024 then (if v < 0 then NegInfinity else Infinity)
         else Num (if v < 0 then - int m else int m))"

text \<open>
  \<open>n.toString()\<close> of a non-negative integer; the decimal digits are the first ten
  hexadecimal ones.
\<close>

fun toString10 :: "nat \<Rightarrow> string" where
  "toString10 n = (if n < 10 then [hexChar n] else toString10 (n div 10) @ [hexChar (n mod 10)])"

declare toString10.simps [simp del]

text \<open>\<open>Array.prototype.join\<close> with its default separator, the comma.\<close>

fun joinComma :: "string list \<Rightarrow> string" where
  "joinComma [] = []"
| "joinComma [s] = s"
| "joinComma (s # t # rest) = s @ CHR '','' # joinComma (t # rest)"

definition isDecimalDigit :: "char \<Rightarrow> bool" where
  "isDecimalDigit c \<longleftrightarrow> 48 \<le> (of_char c :: nat) \<and> (of_char c :: nat) \<le> 57"

definition decimalValue :: "string \<Rightarrow> nat" where
  "decimalValue ds = foldl (\<lambda>acc c. 10 * acc + ((of_char c :: nat) - 48)) 0 ds"

text \<open>
  \<open>Number(str)\<close> for a string of decimal digits and commas, the strings \<open>toString\<close> gives for
  arrays of bytes: the empty string is 0, digits are their decimal value, and a string
  with a comma is NaN (\<open>None\<close>).
\<close>

definition StringToNumber :: "string \<Rightarrow> int option" where
  "StringToNumber str =
     (if str = [] then Some 0
      else if list_all isDecimalDigit str then Some (int (decimalValue str))
      else None)"

section \<open>types.ts\<close>

type_synonym Hex = string
type_synonym Address = string
type_synonym Hash = string
type_synonym Signature = string

definition ADDRESS_SIZE :: nat where "ADDRESS_SIZE = 20"
definition HASH_SIZE :: nat where "HASH_SIZE = 32"
definition SIGNATURE_SIZE :: nat where "SIGNATURE_SIZE = 65"

definition ZERO_ADDRESS :: Address where
  "ZERO_ADDRESS = ''0x0000000000000000000000000000000000000000''"

definition NATIVE_TOKEN :: Address where
  "NATIVE_TOKEN = ZERO_ADDRESS"

text \<open>
  The loop of \<open>hexToBytes\<close> fills element \<open>i\<close> from the two characters at \<open>2i\<close> and \<open>2i+1\<close>;
  an odd last character is dropped, since the array has \<open>length / 2\<close> elements, rounded down.
\<close>

fun hexPairs :: "string \<Rightarrow> bytes" where
  "hexPairs (a # b # rest) = toUint8 (parseInt16 [a, b]) # hexPairs rest"
| "hexPairs _ = []"

definition hexToBytes :: "Hex \<Rightarrow> bytes" where
  "hexToBytes hex = hexPairs (if take 2 hex = ''0x'' then drop 2 hex else hex)"

definition bytesToHex :: "bytes \<Rightarrow> Hex" where
  "bytesToHex bs = ''0x'' @ concat (map (\<lambda>b. padStart 2 (CHR ''0'') (toString16 (unat b))) bs)"

definition toAddress_bytes :: "bytes \<Rightarrow> error + Address" where
  "toAddress_bytes v =
     (if length v \<noteq> ADDRESS_SIZE then Inl (AddressMustBe20Bytes (length v)) else Inr (bytesToHex v))"

definition toAddress_hex :: "Hex \<Rightarrow> error + Address" where
  "toAddress_hex v =
     (let bs = hexToBytes v in
      if length bs \<noteq> ADDRESS_SIZE then Inl (AddressMustBe20Bytes (length bs)) else Inr (toLowerCase v))"

definition toHash_bytes :: "bytes \<Rightarrow> error + Hash" where
  "toHash_bytes v =
     (if length v \<noteq> HASH_SIZE then Inl (HashMustBe32Bytes (length v)) else Inr (bytesToHex v))"

definition toHash_hex :: "Hex \<Rightarrow> error + Hash" where
  "toHash_hex v =
     (let bs = hexToBytes v in
      if length bs \<noteq> HASH_SIZE then Inl (HashMustBe32Bytes (length bs)) else Inr (toLowerCase v))"

definition toSignature_bytes :: "bytes \<Rightarrow> error + Signature" where
  "toSignature_bytes v =
     (if length v \<noteq> SIGNATURE_SIZE then Inl (SignatureMustBe65Bytes (length v)) else Inr (bytesToHex v))"

text \<open>The type guard \<open>isSignature\<close> on a string: \<open>0x\<close> and exactly 130 hexadecimal digits.\<close>

definition isSignature :: "string \<Rightarrow> bool" where
  "isSignature v \<longleftrightarrow>
     take 2 v = ''0x'' \<and> length v = 132 \<and> list_all isHexDigit (drop 2 v)"

section \<open>serialization/rlp.ts: scalars and the writer\<close>

definition encodeScalar :: "int \<Rightarrow> bytes" where
  "encodeScalar v =
     (if v = 0 then []
      else let hex = bigintToString16 v;
               hex' = (if length hex mod 2 \<noteq> 0 then CHR ''0'' # hex else hex)
           in hexToBytes (''0x'' @ hex'))"

definition decodeScalar :: "bytes \<Rightarrow> error + int" where
  "decodeScalar bs = (if length bs = 0 then Inr 0 else BigInt_hex (bytesToHex bs))"

text \<open>The type \<open>RLPDecoded\<close>: a byte string or an array of such values.\<close>

datatype RLPDecoded = DBytes bytes | DList "RLPDecoded list"

subsection \<open>An array where a \<open>Uint8Array\<close> is expected\<close>

text \<open>
  The decoder passes elements of the decoded input under a cast, so a function written for
  a \<open>Uint8Array\<close> can receive an array. Its \<open>length\<close> is then the number of elements, and an
  element is a decoded value, which the built-ins convert through \<open>toString\<close>: for a
  \<open>Uint8Array\<close> and for an array this is \<open>join\<close>, whatever the radix argument, so the result
  is made of decimal digits and commas.
\<close>

fun toStringValue :: "RLPDecoded \<Rightarrow> string" where
  "toStringValue (DBytes bs) = joinComma (map (\<lambda>b. toString10 (unat b)) bs)"
| "toStringValue (DList xs) = joinComma (map toStringValue xs)"

text \<open>\<open>ToNumber\<close> of an element, as a comparison with a Number and a store into a \<open>Uint8Array\<close> apply it.\<close>

definition ToNumber :: "RLPDecoded \<Rightarrow> int option" where
  "ToNumber x = StringToNumber (toStringValue x)"

text \<open>\<open>bytesToHex\<close> on an array.\<close>

definition bytesToHex_array :: "RLPDecoded list \<Rightarrow> Hex" where
  "bytesToHex_array xs = ''0x'' @ concat (map (\<lambda>b. padStart 2 (CHR ''0'') (toStringValue b)) xs)"

text \<open>\<open>decodeScalar\<close> on an array.\<close>

definition decodeScalar_array :: "RLPDecoded list \<Rightarrow> error + int" where
  "decodeScalar_array xs = (if length xs = 0 then Inr 0 else BigInt_hex (bytesToHex_array xs))"

subsection \<open>The writer\<close>

text \<open>
  An element of type \<open>bytes\<close> holds the argument of \<open>writeBytes\<close>, which is a \<open>Uint8Array\<close>
  (\<open>ElemBytes\<close>) or, for the message of a decoded transaction, possibly an array
  (\<open>ElemBytesArray\<close>).
\<close>

datatype RLPElement =
    ElemBytes bytes
  | ElemRaw bytes
  | ElemList "RLPElement list"
  | ElemBytesArray "RLPDecoded list"

text \<open>The writer is its list of elements; each method returns the list with one element pushed.\<close>

type_synonym RLPWriter = "RLPElement list"

definition writeBytes :: "bytes \<Rightarrow> RLPWriter \<Rightarrow> RLPWriter" where
  "writeBytes v w = w @ [ElemBytes v]"

definition writeScalar :: "int \<Rightarrow> RLPWriter \<Rightarrow> RLPWriter" where
  "writeScalar v w = w @ [ElemBytes (encodeScalar v)]"

definition writeLongScalar :: "int \<Rightarrow> RLPWriter \<Rightarrow> RLPWriter" where
  "writeLongScalar v w = writeScalar v w"

definition writeIntScalar :: "int \<Rightarrow> RLPWriter \<Rightarrow> RLPWriter" where
  "writeIntScalar v w = writeScalar v w"

definition writeRaw :: "bytes \<Rightarrow> RLPWriter \<Rightarrow> RLPWriter" where
  "writeRaw rlpBytes w = w @ [ElemRaw rlpBytes]"

definition writeEmptyList :: "RLPWriter \<Rightarrow> RLPWriter" where
  "writeEmptyList w = w @ [ElemRaw [0xc0]]"

definition writeList :: "(RLPWriter \<Rightarrow> RLPWriter) \<Rightarrow> RLPWriter \<Rightarrow> RLPWriter" where
  "writeList builder w = w @ [ElemList (builder [])]"

definition writeBigIntegerScalar :: "int \<Rightarrow> RLPWriter \<Rightarrow> RLPWriter" where
  "writeBigIntegerScalar v w = writeScalar v w"

definition writeWeiScalar :: "int \<Rightarrow> RLPWriter \<Rightarrow> RLPWriter" where
  "writeWeiScalar v w = writeBigIntegerScalar v w"

text \<open>\<open>writeBytes\<close> on a decoded value.\<close>

definition writeBytes_value :: "RLPDecoded \<Rightarrow> RLPWriter \<Rightarrow> RLPWriter" where
  "writeBytes_value v w = (case v of DBytes bs \<Rightarrow> writeBytes bs w | DList xs \<Rightarrow> w @ [ElemBytesArray xs])"

text \<open>\<open>writeOptionalBytes\<close> is called with the message of a transaction.\<close>

definition writeOptionalBytes :: "RLPDecoded option \<Rightarrow> RLPWriter \<Rightarrow> RLPWriter" where
  "writeOptionalBytes v w =
     (case v of None \<Rightarrow> writeEmptyList w | Some x \<Rightarrow> writeList (writeBytes_value x) w)"

definition writeOptionalLongScalar :: "int option \<Rightarrow> RLPWriter \<Rightarrow> RLPWriter" where
  "writeOptionalLongScalar v w =
     (case v of None \<Rightarrow> writeEmptyList w | Some x \<Rightarrow> writeList (writeLongScalar x) w)"

definition writeOptionalWeiScalar :: "int option \<Rightarrow> RLPWriter \<Rightarrow> RLPWriter" where
  "writeOptionalWeiScalar v w =
     (case v of None \<Rightarrow> writeEmptyList w | Some x \<Rightarrow> writeList (writeBigIntegerScalar x) w)"

definition writeOptionalRaw :: "bytes option \<Rightarrow> RLPWriter \<Rightarrow> RLPWriter" where
  "writeOptionalRaw v w =
     (case v of None \<Rightarrow> writeEmptyList w | Some x \<Rightarrow> writeList (writeRaw x) w)"

text \<open>\<open>writeOptionalBytes32\<close> is only called with bytes or null.\<close>

definition writeOptionalBytes32 :: "bytes option \<Rightarrow> RLPWriter \<Rightarrow> RLPWriter" where
  "writeOptionalBytes32 v w =
     (case v of None \<Rightarrow> writeEmptyList w | Some x \<Rightarrow> writeList (writeBytes x) w)"

definition startList :: "RLPWriter" where
  "startList = []"

definition addList :: "RLPWriter \<Rightarrow> RLPWriter \<Rightarrow> RLPWriter" where
  "addList sublist w = w @ [ElemList sublist]"

definition encodeLengthBytes :: "nat \<Rightarrow> bytes" where
  "encodeLengthBytes len =
     (if len < 256 then [of_nat len]
      else if len < 65536 then [of_nat (len div 2 ^ 8), of_nat (len mod 256)]
      else if len < 16777216 then
        [of_nat (len div 2 ^ 16), of_nat ((len div 2 ^ 8) mod 256), of_nat (len mod 256)]
      else
        [of_nat (len div 2 ^ 24), of_nat ((len div 2 ^ 16) mod 256),
         of_nat ((len div 2 ^ 8) mod 256), of_nat (len mod 256)])"

definition encodeString :: "bytes \<Rightarrow> bytes" where
  "encodeString bs =
     (if length bs = 0 then [0x80]
      else if length bs = 1 \<and> hd bs < 0x80 then bs
      else if length bs \<le> 55 then of_nat (0x80 + length bs) # bs
      else let lengthBytes = encodeLengthBytes (length bs)
           in of_nat (0xb7 + length lengthBytes) # lengthBytes @ bs)"

text \<open>
  \<open>encodeString\<close> on an array. The comparison \<open>bytes[0] < 0x80\<close> converts the element to a
  Number and is false on NaN; the result is given as the bytes that \<open>set\<close> stores, each
  element converted to a Number and then to a byte. A one-element array that is returned
  as it is reaches \<open>set\<close> in \<open>encodeElements\<close>.
\<close>

definition encodeString_array :: "RLPDecoded list \<Rightarrow> bytes" where
  "encodeString_array xs =
     (let stored = map (\<lambda>x. toUint8 (ToNumber x)) xs in
      if length xs = 0 then [0x80]
      else if length xs = 1 \<and> (case ToNumber (hd xs) of None \<Rightarrow> False | Some n \<Rightarrow> n < 0x80)
      then stored
      else if length xs \<le> 55 then of_nat (0x80 + length xs) # stored
      else let lengthBytes = encodeLengthBytes (length xs)
           in of_nat (0xb7 + length lengthBytes) # lengthBytes @ stored)"

definition encodeListHeader :: "nat \<Rightarrow> bytes" where
  "encodeListHeader payloadSize =
     (if payloadSize \<le> 55 then [of_nat (0xc0 + payloadSize)]
      else let lengthBytes = encodeLengthBytes payloadSize
           in of_nat (0xf7 + length lengthBytes) # lengthBytes)"

text \<open>
  \<open>encodeElem\<close> is the body of the first loop of \<open>encodeElements\<close>: the encoded part of one
  element. A nested list is encoded by the recursive call of \<open>encodeElements\<close>.
\<close>

fun encodeElem :: "RLPElement \<Rightarrow> bytes" where
  "encodeElem (ElemBytes d) = encodeString d"
| "encodeElem (ElemBytesArray d) = encodeString_array d"
| "encodeElem (ElemRaw d) = d"
| "encodeElem (ElemList es) =
     (let encodedParts = map encodeElem es;
          payloadSize = sum_list (map length encodedParts)
      in encodeListHeader payloadSize @ concat encodedParts)"

definition encodedParts :: "RLPElement list \<Rightarrow> bytes list" where
  "encodedParts elements = map encodeElem elements"

definition encodeElements :: "RLPElement list \<Rightarrow> bytes" where
  "encodeElements elements =
     (let payloadSize = sum_list (map length (encodedParts elements))
      in encodeListHeader payloadSize @ concat (encodedParts elements))"

definition encode :: "RLPWriter \<Rightarrow> bytes" where
  "encode w = encodeElements w"

text \<open>The big-endian value of a byte string, and the minimal big-endian bytes of a number.\<close>

definition bytesValue :: "bytes \<Rightarrow> nat" where
  "bytesValue bs = foldl (\<lambda>acc b. 256 * acc + unat b) 0 bs"

fun minimalBytes :: "nat \<Rightarrow> bytes" where
  "minimalBytes n = (if n = 0 then [] else minimalBytes (n div 256) @ [of_nat (n mod 256)])"

declare minimalBytes.simps [simp del]

definition evenPad :: "string \<Rightarrow> string" where
  "evenPad hex = (if length hex mod 2 \<noteq> 0 then CHR ''0'' # hex else hex)"

section \<open>The platform\<close>

text \<open>
  Keccak-256 (viem), the secp256k1 primitives (noble-curves) and the UTF-8 coders
  (\<open>TextEncoder\<close>, \<open>TextDecoder\<close>) are not part of the sources; the functions that call them
  take them as a parameter. \<open>keccak256\<close> returns the hash as a hex string;
  \<open>secp256k1_sign\<close> takes the hash bytes and the key bytes and returns \<open>r\<close>, \<open>s\<close> and the
  recovery id; \<open>secp256k1_getPublicKey\<close> and \<open>secp256k1_recoverPublicKey\<close> return the
  uncompressed key, tag byte first.
\<close>

record platform =
  keccak256 :: "bytes \<Rightarrow> Hex"
  secp256k1_sign :: "bytes \<Rightarrow> bytes \<Rightarrow> int \<times> int \<times> int"
  secp256k1_getPublicKey :: "bytes \<Rightarrow> bytes"
  secp256k1_recoverPublicKey :: "int \<Rightarrow> int \<Rightarrow> int \<Rightarrow> bytes \<Rightarrow> error + bytes"
  TextEncoder_encode :: "string \<Rightarrow> bytes"
  TextDecoder_decode :: "bytes \<Rightarrow> string"

section \<open>enums.ts\<close>

datatype Network = MAINNET | TESTNET

fun Network_code :: "Network \<Rightarrow> int" where
  "Network_code MAINNET = 0"
| "Network_code TESTNET = 1"

definition networkFromCode :: "number \<Rightarrow> error + Network" where
  "networkFromCode code =
     (if code = Num 0 then Inr MAINNET
      else if code = Num 1 then Inr TESTNET
      else Inl UnknownNetworkCode)"

datatype TxVersion = V1

fun TxVersion_code :: "TxVersion \<Rightarrow> int" where
  "TxVersion_code V1 = 1"

definition txVersionFromCode :: "number \<Rightarrow> error + TxVersion" where
  "txVersionFromCode code = (if code = Num 1 then Inr V1 else Inl UnknownTxVersionCode)"

datatype TxType = TRANSFER | BIP_CREATE | BIP_VOTE

fun TxType_code :: "TxType \<Rightarrow> int" where
  "TxType_code TRANSFER = 0"
| "TxType_code BIP_CREATE = 1"
| "TxType_code BIP_VOTE = 2"

definition txTypeFromCode :: "number \<Rightarrow> error + TxType" where
  "txTypeFromCode code =
     (if code = Num 0 then Inr TRANSFER
      else if code = Num 1 then Inr BIP_CREATE
      else if code = Num 2 then Inr BIP_VOTE
      else Inl UnknownTxTypeCode)"

text \<open>
  The members of \<open>TxPayloadType\<close>. The member \<open>BIP_VOTE\<close> of this enum is written
  \<open>PAYLOAD_BIP_VOTE\<close>, since \<open>TxType\<close> has a member of the same name. The enum has no member
  for a validator payload.
\<close>

datatype TxPayloadType =
    BIP_ADDRESS_ALIAS_ADD
  | BIP_ADDRESS_ALIAS_REMOVE
  | BIP_AUTHORITY_ADD
  | BIP_AUTHORITY_REMOVE
  | BIP_NETWORK_PARAMS_SET
  | BIP_TOKEN_BURN
  | BIP_TOKEN_CREATE
  | BIP_TOKEN_MINT
  | BIP_TOKEN_UPDATE
  | PAYLOAD_BIP_VOTE

fun TxPayloadType_code :: "TxPayloadType \<Rightarrow> int" where
  "TxPayloadType_code BIP_ADDRESS_ALIAS_ADD = 0"
| "TxPayloadType_code BIP_ADDRESS_ALIAS_REMOVE = 1"
| "TxPayloadType_code BIP_AUTHORITY_ADD = 2"
| "TxPayloadType_code BIP_AUTHORITY_REMOVE = 3"
| "TxPayloadType_code BIP_NETWORK_PARAMS_SET = 4"
| "TxPayloadType_code BIP_TOKEN_BURN = 5"
| "TxPayloadType_code BIP_TOKEN_CREATE = 6"
| "TxPayloadType_code BIP_TOKEN_MINT = 7"
| "TxPayloadType_code BIP_TOKEN_UPDATE = 8"
| "TxPayloadType_code PAYLOAD_BIP_VOTE = 9"

definition TxPayloadType_members :: "TxPayloadType list" where
  "TxPayloadType_members =
     [BIP_ADDRESS_ALIAS_ADD, BIP_ADDRESS_ALIAS_REMOVE, BIP_AUTHORITY_ADD, BIP_AUTHORITY_REMOVE,
      BIP_NETWORK_PARAMS_SET, BIP_TOKEN_BURN, BIP_TOKEN_CREATE, BIP_TOKEN_MINT, BIP_TOKEN_UPDATE,
      PAYLOAD_BIP_VOTE]"

definition txPayloadTypeFromCode :: "number \<Rightarrow> error + TxPayloadType" where
  "txPayloadTypeFromCode code =
     (case filter (\<lambda>t. code = Num (TxPayloadType_code t)) TxPayloadType_members of
        [] \<Rightarrow> Inl UnknownTxPayloadTypeCode
      | t # _ \<Rightarrow> Inr t)"

text \<open>\<open>BipVoteType\<close>: the decoder does not check a vote code, so a vote type is a Number.\<close>

definition DISAPPROVAL :: number where "DISAPPROVAL = Num 0"
definition APPROVAL :: number where "APPROVAL = Num 1"

section \<open>tx/payloads\<close>

text \<open>
  The payload objects, one constructor per interface, the fields in the order of the
  interface. An optional field is \<open>None\<close> when it is null. The two validator payloads
  are the objects the factories \<open>createValidatorAddPayload\<close> and \<open>createValidatorRemovePayload\<close>
  build.
\<close>

datatype AnyTxPayload =
    TokenMintPayload Address Address int
  | TokenBurnPayload Address Address int
  | TokenCreatePayload string string number "string option" "string option" "int option" bool
  | TokenUpdatePayload Address "string option" "string option" "string option" "string option"
  | VotePayload number
  | AddressAliasAddPayload Address string
  | AddressAliasRemovePayload string
  | AuthorityAddPayload Address
  | AuthorityRemovePayload Address
  | NetworkParamsSetPayload "int option" "Address option" "int option" "int option" "int option"
      "int option" "int option"
  | ValidatorAddPayload Address
  | ValidatorRemovePayload Address

text \<open>
  The field \<open>payloadType\<close>. \<open>None\<close> is \<open>undefined\<close>: the validator factories read
  \<open>TxPayloadType.BIP_VALIDATOR_ADD\<close> and \<open>TxPayloadType.BIP_VALIDATOR_REMOVE\<close>, which the
  enum does not have.
\<close>

fun payloadType :: "AnyTxPayload \<Rightarrow> TxPayloadType option" where
  "payloadType (TokenMintPayload _ _ _) = Some BIP_TOKEN_MINT"
| "payloadType (TokenBurnPayload _ _ _) = Some BIP_TOKEN_BURN"
| "payloadType (TokenCreatePayload _ _ _ _ _ _ _) = Some BIP_TOKEN_CREATE"
| "payloadType (TokenUpdatePayload _ _ _ _ _) = Some BIP_TOKEN_UPDATE"
| "payloadType (VotePayload _) = Some PAYLOAD_BIP_VOTE"
| "payloadType (AddressAliasAddPayload _ _) = Some BIP_ADDRESS_ALIAS_ADD"
| "payloadType (AddressAliasRemovePayload _) = Some BIP_ADDRESS_ALIAS_REMOVE"
| "payloadType (AuthorityAddPayload _) = Some BIP_AUTHORITY_ADD"
| "payloadType (AuthorityRemovePayload _) = Some BIP_AUTHORITY_REMOVE"
| "payloadType (NetworkParamsSetPayload _ _ _ _ _ _ _) = Some BIP_NETWORK_PARAMS_SET"
| "payloadType (ValidatorAddPayload _) = None"
| "payloadType (ValidatorRemovePayload _) = None"

definition createTokenMintPayload :: "Address \<Rightarrow> Address \<Rightarrow> int \<Rightarrow> AnyTxPayload" where
  "createTokenMintPayload tokenAddress recipient amount = TokenMintPayload tokenAddress recipient amount"

definition createTokenBurnPayload :: "Address \<Rightarrow> Address \<Rightarrow> int \<Rightarrow> AnyTxPayload" where
  "createTokenBurnPayload tokenAddress sender amount = TokenBurnPayload tokenAddress sender amount"

record TokenCreateParams =
  p_name :: string
  p_smallestUnitName :: string
  p_numberOfDecimals :: number
  p_websiteUrl :: "string option"
  p_logoUrl :: "string option"
  p_maxSupply :: "int option"
  p_userBurnable :: "bool option"

definition createTokenCreatePayload :: "TokenCreateParams \<Rightarrow> AnyTxPayload" where
  "createTokenCreatePayload params =
     TokenCreatePayload (p_name params) (p_smallestUnitName params) (p_numberOfDecimals params)
       (p_websiteUrl params) (p_logoUrl params) (p_maxSupply params)
       (case p_userBurnable params of None \<Rightarrow> False | Some b \<Rightarrow> b)"

definition createTokenUpdatePayload ::
  "Address \<Rightarrow> string option \<Rightarrow> string option \<Rightarrow> string option \<Rightarrow> string option \<Rightarrow> AnyTxPayload" where
  "createTokenUpdatePayload tokenAddress name smallestUnitName websiteUrl logoUrl =
     TokenUpdatePayload tokenAddress name smallestUnitName websiteUrl logoUrl"

definition createVotePayload :: "number \<Rightarrow> AnyTxPayload" where
  "createVotePayload voteType = VotePayload voteType"

definition createApprovalVote :: AnyTxPayload where
  "createApprovalVote = createVotePayload APPROVAL"

definition createDisapprovalVote :: AnyTxPayload where
  "createDisapprovalVote = createVotePayload DISAPPROVAL"

definition createAddressAliasAddPayload :: "Address \<Rightarrow> string \<Rightarrow> AnyTxPayload" where
  "createAddressAliasAddPayload address alias = AddressAliasAddPayload address alias"

definition createAddressAliasRemovePayload :: "string \<Rightarrow> AnyTxPayload" where
  "createAddressAliasRemovePayload alias = AddressAliasRemovePayload alias"

definition createAuthorityAddPayload :: "Address \<Rightarrow> AnyTxPayload" where
  "createAuthorityAddPayload authorityAddress = AuthorityAddPayload authorityAddress"

definition createAuthorityRemovePayload :: "Address \<Rightarrow> AnyTxPayload" where
  "createAuthorityRemovePayload authorityAddress = AuthorityRemovePayload authorityAddress"

definition createValidatorAddPayload :: "Address \<Rightarrow> AnyTxPayload" where
  "createValidatorAddPayload validatorAddress = ValidatorAddPayload validatorAddress"

definition createValidatorRemovePayload :: "Address \<Rightarrow> AnyTxPayload" where
  "createValidatorRemovePayload validatorAddress = ValidatorRemovePayload validatorAddress"

definition createNetworkParamsSetPayload ::
  "int option \<Rightarrow> Address option \<Rightarrow> int option \<Rightarrow> int option \<Rightarrow> int option \<Rightarrow> int option \<Rightarrow>
   int option \<Rightarrow> AnyTxPayload" where
  "createNetworkParamsSetPayload blockReward blockRewardPoolAddress targetMiningTimeMs
       asertHalfLifeBlocks minDifficulty minTxBaseFee minTxByteFee =
     NetworkParamsSetPayload blockReward blockRewardPoolAddress targetMiningTimeMs
       asertHalfLifeBlocks minDifficulty minTxBaseFee minTxByteFee"

section \<open>serialization/PayloadCodec.ts: the encoder\<close>

definition EMPTY_LIST :: bytes where
  "EMPTY_LIST = [0xc0]"

definition encodeString_utf8 :: "platform \<Rightarrow> string \<Rightarrow> bytes" where
  "encodeString_utf8 P str = TextEncoder_encode P str"

definition writeOptionalString :: "platform \<Rightarrow> string option \<Rightarrow> RLPWriter \<Rightarrow> RLPWriter" where
  "writeOptionalString P v w =
     (case v of None \<Rightarrow> writeEmptyList w
      | Some x \<Rightarrow> addList (writeBytes (encodeString_utf8 P x) startList) w)"

definition writeOptionalAddressField :: "Address option \<Rightarrow> RLPWriter \<Rightarrow> RLPWriter" where
  "writeOptionalAddressField v w =
     (case v of None \<Rightarrow> writeEmptyList w
      | Some x \<Rightarrow> addList (writeBytes (hexToBytes x) startList) w)"

definition writeOptionalBigInteger :: "int option \<Rightarrow> RLPWriter \<Rightarrow> RLPWriter" where
  "writeOptionalBigInteger v w =
     (case v of None \<Rightarrow> writeEmptyList w
      | Some x \<Rightarrow> addList (writeBigIntegerScalar x startList) w)"

text \<open>\<open>value || null\<close> on an optional string: the empty string is falsy.\<close>

definition orNull :: "string option \<Rightarrow> string option" where
  "orNull v = (case v of None \<Rightarrow> None | Some x \<Rightarrow> (if x = [] then None else Some x))"

text \<open>
  The arm of the \<open>switch\<close> of \<open>encodePayload\<close> for a payload, applied to the writer that
  already holds the payload type. A validator payload matches no \<open>case\<close> and reaches the
  default arm.
\<close>

fun encodePayloadFields :: "platform \<Rightarrow> AnyTxPayload \<Rightarrow> RLPWriter \<Rightarrow> error + RLPWriter" where
  "encodePayloadFields P (TokenMintPayload tokenAddress recipient amount) w =
     Inr (writeBigIntegerScalar amount
           (writeBytes (hexToBytes recipient) (writeBytes (hexToBytes tokenAddress) w)))"
| "encodePayloadFields P (TokenBurnPayload tokenAddress sender amount) w =
     Inr (writeBigIntegerScalar amount
           (writeBytes (hexToBytes sender) (writeBytes (hexToBytes tokenAddress) w)))"
| "encodePayloadFields P
     (TokenCreatePayload name smallestUnitName numberOfDecimals websiteUrl logoUrl maxSupply userBurnable) w =
     bindE (BigInt_number numberOfDecimals) (\<lambda>decimals.
       Inr (writeIntScalar (if userBurnable then 1 else 0)
             (writeOptionalBigInteger maxSupply
               (writeOptionalString P (orNull logoUrl)
                 (writeOptionalString P (orNull websiteUrl)
                   (writeIntScalar decimals
                     (writeBytes (encodeString_utf8 P smallestUnitName)
                       (writeBytes (encodeString_utf8 P name) w))))))))"
| "encodePayloadFields P (TokenUpdatePayload tokenAddress name smallestUnitName websiteUrl logoUrl) w =
     Inr (writeOptionalString P logoUrl
           (writeOptionalString P websiteUrl
             (writeOptionalString P smallestUnitName
               (writeOptionalString P name
                 (writeBytes (hexToBytes tokenAddress) w)))))"
| "encodePayloadFields P (VotePayload voteType) w =
     bindE (BigInt_number voteType) (\<lambda>v. Inr (writeIntScalar v w))"
| "encodePayloadFields P (AddressAliasAddPayload address alias) w =
     Inr (writeBytes (hexToBytes address) (writeBytes (encodeString_utf8 P alias) w))"
| "encodePayloadFields P (AddressAliasRemovePayload alias) w =
     Inr (writeBytes (encodeString_utf8 P alias) w)"
| "encodePayloadFields P (AuthorityAddPayload authorityAddress) w =
     Inr (writeBytes (hexToBytes authorityAddress) w)"
| "encodePayloadFields P (AuthorityRemovePayload authorityAddress) w =
     Inr (writeBytes (hexToBytes authorityAddress) w)"
| "encodePayloadFields P
     (NetworkParamsSetPayload blockReward blockRewardPoolAddress targetMiningTimeMs
        asertHalfLifeBlocks minDifficulty minTxBaseFee minTxByteFee) w =
     Inr (writeOptionalWeiScalar minTxByteFee
           (writeOptionalWeiScalar minTxBaseFee
             (writeOptionalBigInteger minDifficulty
               (writeOptionalLongScalar asertHalfLifeBlocks
                 (writeOptionalLongScalar targetMiningTimeMs
                   (writeOptionalAddressField blockRewardPoolAddress
                     (writeOptionalWeiScalar blockReward w)))))))"
| "encodePayloadFields P (ValidatorAddPayload validatorAddress) w = Inl UnknownPayloadType"
| "encodePayloadFields P (ValidatorRemovePayload validatorAddress) w = Inl UnknownPayloadType"

text \<open>
  \<open>writer.writeIntScalar(payload.payloadType)\<close>, the statement before the \<open>switch\<close>:
  \<open>encodeScalar\<close> starts with \<open>BigInt(value)\<close>, which raises a TypeError on \<open>undefined\<close>.
\<close>

definition writePayloadType :: "TxPayloadType option \<Rightarrow> RLPWriter \<Rightarrow> error + RLPWriter" where
  "writePayloadType t w =
     (case t of None \<Rightarrow> Inl TypeError | Some c \<Rightarrow> Inr (writeIntScalar (TxPayloadType_code c) w))"

definition encodePayload :: "platform \<Rightarrow> AnyTxPayload option \<Rightarrow> TxVersion \<Rightarrow> error + bytes" where
  "encodePayload P payload version =
     (case payload of
        None \<Rightarrow> Inr EMPTY_LIST
      | Some p \<Rightarrow>
          bindE (writePayloadType (payloadType p) []) (\<lambda>w.
          bindE (encodePayloadFields P p w) (\<lambda>w'.
          Inr (encode w'))))"

section \<open>The rlp package: decoding\<close>

text \<open>
  Modelled from the spec: \<open>RLP.decode\<close> of the external rlp package, which is not part of the
  sources. It follows the recursive length prefix format of section 4.1 of the
  specification: a first byte below \<open>0x80\<close> is a string of that one byte; \<open>0x80 + n\<close>
  starts a string of \<open>n \<le> 55\<close> bytes; \<open>0xb7 + L\<close> a string whose length is given by the next
  \<open>L\<close> bytes; \<open>0xc0 + p\<close> a list whose elements take \<open>p \<le> 55\<close> bytes; \<open>0xf7 + L\<close> a list
  whose length is given by the next \<open>L\<close> bytes. Truncated input, a length with a leading zero
  byte, a long form used for a short length, a single byte below \<open>0x80\<close> with a prefix, and
  bytes left over after the item are errors. \<open>rlpDecodeItem\<close> returns the first item of its
  input and the bytes after it; \<open>rlpDecodeItems\<close> is the loop over the bytes of a list, which
  decodes one item after the other until none is left.
\<close>

function rlpDecodeItem :: "bytes \<Rightarrow> error + (RLPDecoded \<times> bytes)"
  and rlpDecodeItems :: "bytes \<Rightarrow> error + RLPDecoded list" where
  "rlpDecodeItem [] = Inl RLPDecodeError"
| "rlpDecodeItem (b # rest) =
     (let firstByte = unat b in
      if firstByte \<le> 0x7f then Inr (DBytes [b], rest)
      else if firstByte \<le> 0xb7 then
        (let len = firstByte - 0x80 in
         if length rest < len then Inl RLPDecodeError
         else if len = 1 \<and> hd rest < 0x80 then Inl RLPDecodeError
         else Inr (DBytes (take len rest), drop len rest))
      else if firstByte \<le> 0xbf then
        (let llength = firstByte - 0xb7 in
         if length rest < llength then Inl RLPDecodeError
         else if hd rest = 0 then Inl RLPDecodeError
         else let len = bytesValue (take llength rest); rest' = drop llength rest in
           if len \<le> 55 then Inl RLPDecodeError
           else if length rest' < len then Inl RLPDecodeError
           else Inr (DBytes (take len rest'), drop len rest'))
      else if firstByte \<le> 0xf7 then
        (let len = firstByte - 0xc0 in
         if length rest < len then Inl RLPDecodeError
         else bindE (rlpDecodeItems (take len rest)) (\<lambda>decoded.
                Inr (DList decoded, drop len rest)))
      else
        (let llength = firstByte - 0xf7 in
         if length rest < llength then Inl RLPDecodeError
         else if hd rest = 0 then Inl RLPDecodeError
         else let len = bytesValue (take llength rest); rest' = drop llength rest in
           if len < 56 then Inl RLPDecodeError
           else if length rest' < len then Inl RLPDecodeError
           else bindE (rlpDecodeItems (take len rest')) (\<lambda>decoded.
                  Inr (DList decoded, drop len rest'))))"
| "rlpDecodeItems [] = Inr []"
| "rlpDecodeItems (b # rest) =
     (case rlpDecodeItem (b # rest) of
        Inl e \<Rightarrow> Inl e
      | Inr (d, innerRemainder) \<Rightarrow>
          bindE (rlpDecodeItems innerRemainder) (\<lambda>ds. Inr (d # ds)))"
  by pat_completeness auto

text \<open>
  Both functions terminate: an item is shorter than the list that holds it, and the bytes
  after an item are fewer than the bytes it was read from.
\<close>

termination rlpDecodeItem
proof (relation "measure (\<lambda>x. case x of Inl input \<Rightarrow> 2 * length input
                                     | Inr input \<Rightarrow> 2 * length input + 1)")
  fix b :: byte and rest d innerRemainder x
  assume r: "rlpDecodeItem (b # rest) = Inr x" and x: "(d, innerRemainder) = x"
    and dom: "rlpDecodeItem_rlpDecodeItems_dom (Inl (b # rest))"
  have "length innerRemainder \<le> length rest"
    using r x unfolding rlpDecodeItem.psimps(2)[OF dom] Let_def
    by (auto simp: bindE_def split: if_splits sum.splits)
  then show "(Inr innerRemainder, Inr (b # rest))
        \<in> measure (\<lambda>x. case x of Inl input \<Rightarrow> 2 * length input | Inr input \<Rightarrow> 2 * length input + 1)"
    by simp
qed auto

definition rlpDecode :: "bytes \<Rightarrow> error + RLPDecoded" where
  "rlpDecode input =
     (if input = [] then Inr (DBytes [])
      else bindE (rlpDecodeItem input) (\<lambda>(d, remainder).
             if remainder \<noteq> [] then Inl RLPDecodeError else Inr d))"

section \<open>serialization/rlp.ts: decoding helpers\<close>

text \<open>
  The helpers receive elements of the decoded list (\<open>items[i]\<close>, \<open>data[i]\<close>) under a cast. An
  element is \<open>None\<close> when the index is past the end (\<open>undefined\<close>), a byte string or a list.
  On a list, \<open>toAddress\<close>, \<open>toHash\<close>, \<open>toSignature\<close> and \<open>TextDecoder.decode\<close> raise a
  TypeError, and \<open>decodeScalar\<close> reads the list through \<open>bytesToHex\<close>.
\<close>

definition nth_opt :: "'a list \<Rightarrow> nat \<Rightarrow> 'a option" where
  "nth_opt xs i = (if i < length xs then Some (xs ! i) else None)"

definition decodeAddress :: "RLPDecoded option \<Rightarrow> error + Address" where
  "decodeAddress v =
     (case v of
        None \<Rightarrow> Inl TypeError
      | Some (DBytes bs) \<Rightarrow>
          (if length bs \<noteq> 20 then Inl (InvalidAddressLength (length bs)) else toAddress_bytes bs)
      | Some (DList xs) \<Rightarrow>
          (if length xs \<noteq> 20 then Inl (InvalidAddressLength (length xs)) else Inl TypeError))"

definition decodeHash :: "RLPDecoded option \<Rightarrow> error + Hash" where
  "decodeHash v =
     (case v of
        None \<Rightarrow> Inl TypeError
      | Some (DBytes bs) \<Rightarrow>
          (if length bs \<noteq> 32 then Inl (InvalidHashLength (length bs)) else toHash_bytes bs)
      | Some (DList xs) \<Rightarrow>
          (if length xs \<noteq> 32 then Inl (InvalidHashLength (length xs)) else Inl TypeError))"

definition decodeString :: "platform \<Rightarrow> RLPDecoded option \<Rightarrow> error + string" where
  "decodeString P v =
     (case v of
        None \<Rightarrow> Inr []
      | Some (DBytes bs) \<Rightarrow> Inr (TextDecoder_decode P bs)
      | Some (DList xs) \<Rightarrow> Inl TypeError)"

text \<open>\<open>decodeScalar\<close> under the cast: on \<open>undefined\<close> the read of \<open>length\<close> raises a TypeError.\<close>

definition decodeScalarItem :: "RLPDecoded option \<Rightarrow> error + int" where
  "decodeScalarItem v =
     (case v of
        None \<Rightarrow> Inl TypeError
      | Some (DBytes bs) \<Rightarrow> decodeScalar bs
      | Some (DList xs) \<Rightarrow> decodeScalar_array xs)"

definition decodeInt :: "RLPDecoded option \<Rightarrow> error + number" where
  "decodeInt v = bindE (decodeScalarItem v) (\<lambda>n. Inr (Number_bigint n))"

definition decodeBigint :: "RLPDecoded option \<Rightarrow> error + int" where
  "decodeBigint v = decodeScalarItem v"

definition isEmptyList :: "RLPDecoded option \<Rightarrow> bool" where
  "isEmptyList item =
     (case item of
        Some (DList xs) \<Rightarrow> length xs = 0
      | Some (DBytes bs) \<Rightarrow> length bs = 0
      | None \<Rightarrow> False)"

text \<open>The result is null (\<open>None\<close>) or the value found, which is a list when the input holds one there.\<close>

definition decodeOptionalBytes :: "RLPDecoded option \<Rightarrow> RLPDecoded option" where
  "decodeOptionalBytes item =
     (if isEmptyList item then None
      else case item of
        Some (DList xs) \<Rightarrow> (if length xs = 1 then Some (xs ! 0) else None)
      | Some (DBytes bs) \<Rightarrow> (if length bs = 0 then None else Some (DBytes bs))
      | None \<Rightarrow> None)"

definition valueLength :: "RLPDecoded \<Rightarrow> nat" where
  "valueLength v = (case v of DBytes bs \<Rightarrow> length bs | DList xs \<Rightarrow> length xs)"

definition decodeOptionalAddress :: "RLPDecoded option \<Rightarrow> error + Address option" where
  "decodeOptionalAddress item =
     (case decodeOptionalBytes item of
        None \<Rightarrow> Inr None
      | Some v \<Rightarrow>
          (if valueLength v = 0 then Inr None
           else bindE (decodeAddress (Some v)) (\<lambda>a. Inr (Some a))))"

definition decodeOptionalHash :: "RLPDecoded option \<Rightarrow> error + Hash option" where
  "decodeOptionalHash item =
     (case decodeOptionalBytes item of
        None \<Rightarrow> Inr None
      | Some v \<Rightarrow>
          (if valueLength v = 0 then Inr None
           else bindE (decodeHash (Some v)) (\<lambda>h. Inr (Some h))))"

definition decodeOptionalBigint :: "RLPDecoded option \<Rightarrow> error + int option" where
  "decodeOptionalBigint item =
     (if isEmptyList item then Inr None
      else case item of
        Some (DList xs) \<Rightarrow>
          (if length xs = 1 then bindE (decodeScalarItem (Some (xs ! 0))) (\<lambda>n. Inr (Some n))
           else Inr None)
      | Some (DBytes bs) \<Rightarrow>
          (if length bs = 0 then Inr None else bindE (decodeScalar bs) (\<lambda>n. Inr (Some n)))
      | None \<Rightarrow> Inr None)"

definition decodeOptionalString :: "platform \<Rightarrow> RLPDecoded option \<Rightarrow> error + string option" where
  "decodeOptionalString P item =
     (case decodeOptionalBytes item of
        None \<Rightarrow> Inr None
      | Some v \<Rightarrow>
          (if valueLength v = 0 then Inr None
           else bindE (decodeString P (Some v)) (\<lambda>s. Inr (Some s))))"

section \<open>serialization/PayloadCodec.ts: the decoder\<close>

text \<open>The arms of the \<open>switch\<close> of \<open>decodePayload\<close>, on the list \<open>data\<close> after the unwrapping.\<close>

fun decodePayloadFields ::
  "platform \<Rightarrow> TxPayloadType \<Rightarrow> RLPDecoded list \<Rightarrow> error + AnyTxPayload" where
  "decodePayloadFields P BIP_TOKEN_MINT data =
     bindE (decodeAddress (nth_opt data 1)) (\<lambda>tokenAddress.
     bindE (decodeAddress (nth_opt data 2)) (\<lambda>recipient.
     bindE (decodeBigint (nth_opt data 3)) (\<lambda>amount.
     Inr (TokenMintPayload tokenAddress recipient amount))))"
| "decodePayloadFields P BIP_TOKEN_BURN data =
     bindE (decodeAddress (nth_opt data 1)) (\<lambda>tokenAddress.
     bindE (decodeAddress (nth_opt data 2)) (\<lambda>sender.
     bindE (decodeBigint (nth_opt data 3)) (\<lambda>amount.
     Inr (TokenBurnPayload tokenAddress sender amount))))"
| "decodePayloadFields P BIP_TOKEN_CREATE data =
     bindE (decodeString P (nth_opt data 1)) (\<lambda>name.
     bindE (decodeString P (nth_opt data 2)) (\<lambda>smallestUnitName.
     bindE (decodeInt (nth_opt data 3)) (\<lambda>numberOfDecimals.
     bindE (decodeOptionalString P (nth_opt data 4)) (\<lambda>websiteUrl.
     bindE (decodeOptionalString P (nth_opt data 5)) (\<lambda>logoUrl.
     bindE (decodeOptionalBigint (nth_opt data 6)) (\<lambda>maxSupply.
     bindE (decodeInt (nth_opt data 7)) (\<lambda>userBurnable.
     Inr (TokenCreatePayload name smallestUnitName numberOfDecimals
            (Some (case websiteUrl of None \<Rightarrow> [] | Some u \<Rightarrow> u))
            (Some (case logoUrl of None \<Rightarrow> [] | Some u \<Rightarrow> u))
            (Some (case maxSupply of None \<Rightarrow> 0 | Some m \<Rightarrow> m))
            (userBurnable = Num 1)))))))))"
| "decodePayloadFields P BIP_TOKEN_UPDATE data =
     bindE (decodeAddress (nth_opt data 1)) (\<lambda>tokenAddress.
     bindE (decodeOptionalString P (nth_opt data 2)) (\<lambda>name.
     bindE (decodeOptionalString P (nth_opt data 3)) (\<lambda>smallestUnitName.
     bindE (decodeOptionalString P (nth_opt data 4)) (\<lambda>websiteUrl.
     bindE (decodeOptionalString P (nth_opt data 5)) (\<lambda>logoUrl.
     Inr (TokenUpdatePayload tokenAddress name smallestUnitName websiteUrl logoUrl))))))"
| "decodePayloadFields P PAYLOAD_BIP_VOTE data =
     bindE (decodeInt (nth_opt data 1)) (\<lambda>voteType. Inr (VotePayload voteType))"
| "decodePayloadFields P BIP_ADDRESS_ALIAS_ADD data =
     bindE (decodeString P (nth_opt data 1)) (\<lambda>alias.
     bindE (decodeAddress (nth_opt data 2)) (\<lambda>address.
     Inr (AddressAliasAddPayload address alias)))"
| "decodePayloadFields P BIP_ADDRESS_ALIAS_REMOVE data =
     bindE (decodeString P (nth_opt data 1)) (\<lambda>alias. Inr (AddressAliasRemovePayload alias))"
| "decodePayloadFields P BIP_AUTHORITY_ADD data =
     bindE (decodeAddress (nth_opt data 1)) (\<lambda>authorityAddress.
     Inr (AuthorityAddPayload authorityAddress))"
| "decodePayloadFields P BIP_AUTHORITY_REMOVE data =
     bindE (decodeAddress (nth_opt data 1)) (\<lambda>authorityAddress.
     Inr (AuthorityRemovePayload authorityAddress))"
| "decodePayloadFields P BIP_NETWORK_PARAMS_SET data =
     bindE (decodeOptionalBigint (nth_opt data 1)) (\<lambda>blockReward.
     bindE (decodeOptionalAddress (nth_opt data 2)) (\<lambda>blockRewardPoolAddress.
     bindE (decodeOptionalBigint (nth_opt data 3)) (\<lambda>targetMiningTimeMs.
     bindE (decodeOptionalBigint (nth_opt data 4)) (\<lambda>asertHalfLifeBlocks.
     bindE (decodeOptionalBigint (nth_opt data 5)) (\<lambda>minDifficulty.
     bindE (decodeOptionalBigint (nth_opt data 6)) (\<lambda>minTxBaseFee.
     bindE (decodeOptionalBigint (nth_opt data 7)) (\<lambda>minTxByteFee.
     Inr (NetworkParamsSetPayload blockReward blockRewardPoolAddress targetMiningTimeMs
            asertHalfLifeBlocks minDifficulty minTxBaseFee minTxByteFee))))))))"

text \<open>\<open>decodePayload\<close> from the point where \<open>data\<close> is known to be an array.\<close>

definition decodePayloadList :: "platform \<Rightarrow> RLPDecoded list \<Rightarrow> error + AnyTxPayload option" where
  "decodePayloadList P data0 =
     (if length data0 = 0 then Inr None
      else
        let data = (case data0 of [DList inner] \<Rightarrow> inner | _ \<Rightarrow> data0) in
        if length data = 0 then Inr None
        else
          bindE (decodeInt (nth_opt data 0)) (\<lambda>code.
          bindE (txPayloadTypeFromCode code) (\<lambda>t.
          bindE (decodePayloadFields P t data) (\<lambda>p.
          Inr (Some p)))))"

definition decodePayload :: "platform \<Rightarrow> RLPDecoded option \<Rightarrow> TxVersion \<Rightarrow> error + AnyTxPayload option" where
  "decodePayload P data version =
     (case data of
        Some (DBytes bs) \<Rightarrow>
          (if length bs = 0 \<or> (length bs = 1 \<and> bs ! 0 = 0xc0) then Inr None
           else
             bindE (rlpDecode bs) (\<lambda>decoded.
               case decoded of
                 DBytes _ \<Rightarrow> Inl InvalidPayloadExpectedList
               | DList xs \<Rightarrow> decodePayloadList P xs))
      | Some (DList xs) \<Rightarrow> decodePayloadList P xs
      | None \<Rightarrow> Inr None)"

section \<open>tx/Tx.ts\<close>

text \<open>
  \<open>UnsignedTx\<close> and its extension \<open>Tx\<close>. The interfaces declare \<open>nonce\<close> as a \<open>bigint\<close>, but the
  encoder accepts null there, so the field is optional here. They declare \<open>message\<close> as a
  \<open>Uint8Array\<close> or null, but the decoder stores there the element that
  \<open>decodeOptionalBytes\<close> returns, which can be an array, so the field holds a decoded value:
  \<open>DBytes\<close> of the bytes for a \<open>Uint8Array\<close>. \<open>signature\<close> is null in an unsigned transaction.
  The field \<open>size\<close> is written \<open>txSize\<close>.
\<close>

record UnsignedTx =
  version :: TxVersion
  timestamp :: number
  type :: TxType
  network :: Network
  nonce :: "int option"
  recipient :: "Address option"
  tokenAddress :: "Address option"
  amount :: "int option"
  fee :: int
  message :: "RLPDecoded option"
  payload :: "AnyTxPayload option"
  referenceHash :: "Hash option"
  signature :: "Signature option"

record Tx = UnsignedTx +
  sender :: Address
  hash :: Hash
  txSize :: nat

section \<open>serialization/TxEncoder.ts\<close>

definition writeOptionalAddress :: "Address option \<Rightarrow> RLPWriter \<Rightarrow> RLPWriter" where
  "writeOptionalAddress address w =
     (case address of None \<Rightarrow> writeEmptyList w
      | Some a \<Rightarrow> addList (writeBytes (hexToBytes a) startList) w)"

definition isEmptyPayload :: "bytes \<Rightarrow> bool" where
  "isEmptyPayload bs \<longleftrightarrow> length bs = 1 \<and> bs ! 0 = 0xc0"

text \<open>The truthiness of an optional string: null and the empty string are falsy.\<close>

definition truthy :: "string option \<Rightarrow> bool" where
  "truthy v = (case v of None \<Rightarrow> False | Some x \<Rightarrow> x \<noteq> [])"

text \<open>The elements the writer of \<open>encodeTxV1\<close> holds when \<open>encode\<close> is called.\<close>

definition txElements ::
  "platform \<Rightarrow> 'a UnsignedTx_scheme \<Rightarrow> bool \<Rightarrow> error + RLPWriter" where
  "txElements P tx includeSignature =
     (let w0 = writeIntScalar (TxVersion_code (version tx)) [] in
      bindE (BigInt_number (timestamp tx)) (\<lambda>ts.
      let w1 = writeLongScalar ts w0;
          w2 = writeIntScalar (TxType_code (type tx)) w1;
          w3 = writeIntScalar (Network_code (network tx)) w2;
          w4 = writeOptionalLongScalar (nonce tx) w3;
          w5 = writeOptionalAddress (recipient tx) w4;
          w6 = writeOptionalAddress (tokenAddress tx) w5;
          w7 = writeOptionalWeiScalar (amount tx) w6;
          w8 = writeWeiScalar (fee tx) w7;
          w9 = writeOptionalBytes (message tx) w8
      in
      bindE (encodePayload P (payload tx) (version tx)) (\<lambda>payloadBytes.
      let w10 = (if length payloadBytes = 0 \<or> isEmptyPayload payloadBytes then writeEmptyList w9
                 else writeOptionalRaw (Some payloadBytes) w9);
          w11 = writeOptionalBytes32
                  (if truthy (referenceHash tx) then Some (hexToBytes (the (referenceHash tx))) else None)
                  w10;
          w12 = (if includeSignature \<and> truthy (signature tx)
                 then writeBytes (hexToBytes (the (signature tx))) w11 else w11)
      in Inr w12)))"

definition encodeTxV1 :: "platform \<Rightarrow> 'a UnsignedTx_scheme \<Rightarrow> bool \<Rightarrow> error + bytes" where
  "encodeTxV1 P tx includeSignature =
     bindE (txElements P tx includeSignature) (\<lambda>w. Inr (encode w))"

definition encodeTx :: "platform \<Rightarrow> 'a UnsignedTx_scheme \<Rightarrow> bool \<Rightarrow> error + bytes" where
  "encodeTx P tx includeSignature = (case version tx of V1 \<Rightarrow> encodeTxV1 P tx includeSignature)"

section \<open>crypto/PrivateKey.ts\<close>

definition CURVE_N :: int where
  "CURVE_N = 0xFFFFFFFFFFFFFFFFFFFFFFFFFFFFFFFEBAAEDCE6AF48A03BBFD25E8CD0364141"

definition HALF_CURVE_ORDER :: int where
  "HALF_CURVE_ORDER = CURVE_N div 2"

text \<open>\<open>hash(data)\<close> on bytes.\<close>

definition hashData :: "platform \<Rightarrow> bytes \<Rightarrow> error + Hash" where
  "hashData P data = toHash_hex (keccak256 P data)"

text \<open>\<open>str.slice(-40)\<close>: the last 40 characters, or the whole string when it is shorter.\<close>

definition sliceLast40 :: "string \<Rightarrow> string" where
  "sliceLast40 str = drop (length str - 40) str"

text \<open>The body of the \<open>try\<close> block of \<open>isSignatureStructurallyValid\<close>.\<close>

definition isSignatureStructurallyValid_try :: "Signature \<Rightarrow> error + bool" where
  "isSignatureStructurallyValid_try sig =
     (let sigBytes = hexToBytes sig in
      if length sigBytes \<noteq> 65 then Inr False
      else
        let v = sigBytes ! 64 in
        if v \<noteq> 27 \<and> v \<noteq> 28 then Inr False
        else
          bindE (BigInt_hex (bytesToHex (take 32 sigBytes))) (\<lambda>r.
          bindE (BigInt_hex (bytesToHex (take 32 (drop 32 sigBytes)))) (\<lambda>s.
          if r \<le> 0 \<or> r \<ge> CURVE_N then Inr False
          else if s \<le> 0 \<or> s \<ge> CURVE_N then Inr False
          else if s > HALF_CURVE_ORDER then Inr False
          else Inr True)))"

definition isSignatureStructurallyValid :: "Signature \<Rightarrow> bool" where
  "isSignatureStructurallyValid sig =
     (case isSignatureStructurallyValid_try sig of Inl e \<Rightarrow> False | Inr b \<Rightarrow> b)"

definition recoverAddress :: "platform \<Rightarrow> Hash \<Rightarrow> Signature \<Rightarrow> error + Address" where
  "recoverAddress P messageHash sig =
     (let hashBytes = hexToBytes messageHash;
          sigBytes = hexToBytes sig in
      if length sigBytes \<noteq> 65 then Inl (SignatureMustBe65Bytes (length sigBytes))
      else
        bindE (BigInt_hex (bytesToHex (take 32 sigBytes))) (\<lambda>r.
        bindE (BigInt_hex (bytesToHex (take 32 (drop 32 sigBytes)))) (\<lambda>s.
        let v = sigBytes ! 64;
            recoveryId = int (unat v) - 27 in
        if recoveryId \<noteq> 0 \<and> recoveryId \<noteq> 1 then Inl InvalidRecoveryId
        else
          bindE (secp256k1_recoverPublicKey P r s recoveryId hashBytes) (\<lambda>raw.
          let publicKey = drop 1 raw;
              h = keccak256 P publicKey;
              addressHex = ''0x'' @ sliceLast40 h
          in toAddress_hex addressHex))))"

text \<open>
  A \<open>PrivateKey\<close> is its 32 bytes. \<open>target.set(source, offset)\<close> on a \<open>Uint8Array\<close> raises a
  RangeError when the source does not fit.
\<close>

type_synonym PrivateKey = bytes

definition setAt :: "bytes \<Rightarrow> bytes \<Rightarrow> nat \<Rightarrow> error + bytes" where
  "setAt target source offset =
     (if offset + length source > length target then Inl RangeError
      else Inr (take offset target @ source @ drop (offset + length source) target))"

definition getPublicKey :: "platform \<Rightarrow> PrivateKey \<Rightarrow> bytes" where
  "getPublicKey P key = drop 1 (secp256k1_getPublicKey P key)"

definition getAddress :: "platform \<Rightarrow> PrivateKey \<Rightarrow> error + Address" where
  "getAddress P key =
     (let publicKey = getPublicKey P key;
          h = keccak256 P publicKey;
          addressHex = ''0x'' @ sliceLast40 h
      in toAddress_hex addressHex)"

definition PrivateKey_sign :: "platform \<Rightarrow> PrivateKey \<Rightarrow> Hash \<Rightarrow> error + Signature" where
  "PrivateKey_sign P key messageHash =
     (let hashBytes = hexToBytes messageHash in
      case secp256k1_sign P hashBytes key of (r, s, recovery) \<Rightarrow>
        let finalS = (if s > HALF_CURVE_ORDER then CURVE_N - s else s);
            v = recovery + 27;
            signatureBytes = replicate 65 (0 :: byte);
            rBytes = hexToBytes (''0x'' @ padStart 64 (CHR ''0'') (bigintToString16 r))
        in
        bindE (setAt signatureBytes rBytes 0) (\<lambda>sb1.
        let sBytes = hexToBytes (''0x'' @ padStart 64 (CHR ''0'') (bigintToString16 finalS)) in
        bindE (setAt sb1 sBytes 32) (\<lambda>sb2.
        toSignature_bytes (sb2 [64 := word_of_int v]))))"

section \<open>utils/TxUtil.ts\<close>

definition hashForSigning :: "platform \<Rightarrow> 'a UnsignedTx_scheme \<Rightarrow> error + Hash" where
  "hashForSigning P tx = bindE (encodeTx P tx False) (\<lambda>data. hashData P data)"

definition hashTx :: "platform \<Rightarrow> 'a UnsignedTx_scheme \<Rightarrow> error + Hash" where
  "hashTx P tx = bindE (encodeTx P tx True) (\<lambda>data. hashData P data)"

definition sizeTx :: "platform \<Rightarrow> 'a UnsignedTx_scheme \<Rightarrow> error + nat" where
  "sizeTx P tx = bindE (encodeTx P tx True) (\<lambda>data. Inr (length data))"

section \<open>serialization/TxDecoder.ts\<close>

text \<open>
  The signature item of \<open>decodeTxV1\<close>: the length check, then \<open>toSignature\<close>. A list of 65
  elements passes the length check and fails in \<open>toSignature\<close> with a TypeError.
\<close>

definition decodeSignatureItem :: "RLPDecoded option \<Rightarrow> error + Signature" where
  "decodeSignatureItem v =
     (case v of
        None \<Rightarrow> Inl (InvalidSignatureLength 0)
      | Some (DBytes bs) \<Rightarrow>
          (if length bs \<noteq> 65 then Inl (InvalidSignatureLength (length bs)) else toSignature_bytes bs)
      | Some (DList xs) \<Rightarrow>
          (if length xs \<noteq> 65 then Inl (InvalidSignatureLength (length xs)) else Inl TypeError))"

definition decodeTxV1 :: "platform \<Rightarrow> RLPDecoded list \<Rightarrow> bytes \<Rightarrow> error + Tx" where
  "decodeTxV1 P items originalBytes =
     bindE (bindE (decodeBigint (nth_opt items 0)) (\<lambda>c. txVersionFromCode (Number_bigint c))) (\<lambda>version'.
     bindE (bindE (decodeBigint (nth_opt items 1)) (\<lambda>c. Inr (Number_bigint c))) (\<lambda>timestamp'.
     bindE (bindE (decodeBigint (nth_opt items 2)) (\<lambda>c. txTypeFromCode (Number_bigint c))) (\<lambda>type'.
     bindE (bindE (decodeBigint (nth_opt items 3)) (\<lambda>c. networkFromCode (Number_bigint c))) (\<lambda>network'.
     bindE (decodeOptionalBigint (nth_opt items 4)) (\<lambda>nonce'.
     bindE (decodeOptionalAddress (nth_opt items 5)) (\<lambda>recipient'.
     bindE (decodeOptionalAddress (nth_opt items 6)) (\<lambda>tokenAddress'.
     bindE (decodeOptionalBigint (nth_opt items 7)) (\<lambda>amount'.
     bindE (decodeBigint (nth_opt items 8)) (\<lambda>fee'.
     let message' = decodeOptionalBytes (nth_opt items 9) in
     bindE (decodePayload P (nth_opt items 10) version') (\<lambda>payload'.
     bindE (decodeOptionalHash (nth_opt items 11)) (\<lambda>referenceHash'.
     bindE (decodeSignatureItem (nth_opt items 12)) (\<lambda>signature'.
     let partialTx = \<lparr> version = version', timestamp = timestamp', type = type',
           network = network',
           nonce = Some (case nonce' of None \<Rightarrow> 0 | Some n \<Rightarrow> n),
           recipient = recipient', tokenAddress = tokenAddress', amount = amount', fee = fee',
           message = message', payload = payload', referenceHash = referenceHash',
           signature = None \<rparr>
     in
     bindE (hashForSigning P partialTx) (\<lambda>signingHash.
     bindE (recoverAddress P signingHash signature') (\<lambda>sender'.
     let tx = \<lparr> version = version', timestamp = timestamp', type = type',
           network = network',
           nonce = Some (case nonce' of None \<Rightarrow> 0 | Some n \<Rightarrow> n),
           recipient = recipient', tokenAddress = tokenAddress', amount = amount', fee = fee',
           message = message', payload = payload', referenceHash = referenceHash',
           signature = Some signature', sender = sender', hash = [],
           txSize = length originalBytes \<rparr>
     in
     bindE (hashTx P tx) (\<lambda>h. Inr (tx \<lparr> hash := h \<rparr>))))))))))))))))"

text \<open>\<open>decodeTx\<close> on bytes; on a hex string it starts with \<open>hexToBytes\<close>.\<close>

definition decodeTx :: "platform \<Rightarrow> bytes \<Rightarrow> error + Tx" where
  "decodeTx P bs =
     (if length bs = 0 then Inl CannotDecodeEmptyBytes
      else
        bindE (rlpDecode bs) (\<lambda>decoded.
          case decoded of
            DBytes _ \<Rightarrow> Inl InvalidRLPExpectedList
          | DList items \<Rightarrow>
              (if length items < 1 then Inl InvalidRLPMissingVersion
               else
                 bindE (bindE (decodeBigint (nth_opt items 0))
                          (\<lambda>c. txVersionFromCode (Number_bigint c))) (\<lambda>version'.
                   case version' of V1 \<Rightarrow> decodeTxV1 P items bs))))"

definition decodeTx_hex :: "platform \<Rightarrow> Hex \<Rightarrow> error + Tx" where
  "decodeTx_hex P rlpHex = decodeTx P (hexToBytes rlpHex)"

section \<open>tx/TxBuilder.ts\<close>

text \<open>The private fields of the builder; \<open>b_type\<close> stands for \<open>_type\<close>, and so on.\<close>

record TxBuilder =
  b_version :: TxVersion
  b_timestamp :: number
  b_type :: "TxType option"
  b_network :: "Network option"
  b_nonce :: "int option"
  b_recipient :: "Address option"
  b_tokenAddress :: "Address option"
  b_amount :: "int option"
  b_fee :: int
  b_message :: "bytes option"
  b_payload :: "AnyTxPayload option"
  b_referenceHash :: "Hash option"

text \<open>\<open>TxBuilder.create()\<close>: the field initializers; \<open>now\<close> is the value of \<open>Date.now()\<close>.\<close>

definition create :: "number \<Rightarrow> TxBuilder" where
  "create now =
     \<lparr> b_version = V1, b_timestamp = now, b_type = None, b_network = None, b_nonce = None,
       b_recipient = None, b_tokenAddress = None, b_amount = None, b_fee = 0, b_message = None,
       b_payload = None, b_referenceHash = None \<rparr>"

definition set_version :: "TxVersion \<Rightarrow> TxBuilder \<Rightarrow> TxBuilder" where
  "set_version v b = b \<lparr> b_version := v \<rparr>"

definition set_timestamp :: "number \<Rightarrow> TxBuilder \<Rightarrow> TxBuilder" where
  "set_timestamp t b = b \<lparr> b_timestamp := t \<rparr>"

definition set_type :: "TxType \<Rightarrow> TxBuilder \<Rightarrow> TxBuilder" where
  "set_type t b = b \<lparr> b_type := Some t \<rparr>"

definition set_network :: "Network \<Rightarrow> TxBuilder \<Rightarrow> TxBuilder" where
  "set_network n b = b \<lparr> b_network := Some n \<rparr>"

definition set_nonce :: "int \<Rightarrow> TxBuilder \<Rightarrow> TxBuilder" where
  "set_nonce n b = b \<lparr> b_nonce := Some n \<rparr>"

definition set_recipient :: "Address \<Rightarrow> TxBuilder \<Rightarrow> TxBuilder" where
  "set_recipient r b = b \<lparr> b_recipient := Some r \<rparr>"

definition set_tokenAddress :: "Address option \<Rightarrow> TxBuilder \<Rightarrow> TxBuilder" where
  "set_tokenAddress a b = b \<lparr> b_tokenAddress := a \<rparr>"

definition set_amount :: "int \<Rightarrow> TxBuilder \<Rightarrow> TxBuilder" where
  "set_amount a b = b \<lparr> b_amount := Some a \<rparr>"

definition set_fee :: "int \<Rightarrow> TxBuilder \<Rightarrow> TxBuilder" where
  "set_fee f b = b \<lparr> b_fee := f \<rparr>"

definition set_message :: "bytes \<Rightarrow> TxBuilder \<Rightarrow> TxBuilder" where
  "set_message m b = b \<lparr> b_message := Some m \<rparr>"

definition set_messageString :: "platform \<Rightarrow> string \<Rightarrow> TxBuilder \<Rightarrow> TxBuilder" where
  "set_messageString P m b = b \<lparr> b_message := Some (TextEncoder_encode P m) \<rparr>"

definition set_messageHex :: "Hex \<Rightarrow> TxBuilder \<Rightarrow> TxBuilder" where
  "set_messageHex m b = b \<lparr> b_message := Some (hexToBytes m) \<rparr>"

definition set_payload :: "AnyTxPayload \<Rightarrow> TxBuilder \<Rightarrow> TxBuilder" where
  "set_payload p b = b \<lparr> b_payload := Some p \<rparr>"

definition set_referenceHash :: "Hash \<Rightarrow> TxBuilder \<Rightarrow> TxBuilder" where
  "set_referenceHash h b = b \<lparr> b_referenceHash := Some h \<rparr>"

text \<open>\<open>validate\<close>: the result is the error thrown, or unit.\<close>

definition validate :: "TxBuilder \<Rightarrow> error + unit" where
  "validate b =
     (if b_type b = None then Inl (TxBuilderError ''Transaction type is required'')
      else if b_network b = None then Inl (TxBuilderError ''Network is required'')
      else if b_nonce b = None then Inl (TxBuilderError ''Nonce is required'')
      else case the (b_type b) of
        TRANSFER \<Rightarrow>
          (if b_recipient b = None
           then Inl (TxBuilderError ''Recipient is required for TRANSFER transactions'')
           else Inr ())
      | BIP_CREATE \<Rightarrow>
          (if b_payload b = None
           then Inl (TxBuilderError ''Payload is required for BIP_CREATE transactions'')
           else if b_amount b \<noteq> None
           then Inl (TxBuilderError
             (''BIP_CREATE transactions must have null amount. '' @
              ''Use payload amount for TOKEN_MINT/BURN operations.''))
           else Inr ())
      | BIP_VOTE \<Rightarrow>
          (if b_payload b = None
           then Inl (TxBuilderError ''Payload is required for BIP_VOTE transactions'')
           else if b_referenceHash b = None
           then Inl (TxBuilderError ''Reference hash is required for BIP_VOTE transactions'')
           else if b_amount b \<noteq> None
           then Inl (TxBuilderError ''BIP_VOTE transactions must have null amount.'')
           else Inr ()))"

definition buildUnsigned :: "TxBuilder \<Rightarrow> error + UnsignedTx" where
  "buildUnsigned b =
     bindE (validate b) (\<lambda>_.
       Inr \<lparr> version = b_version b, timestamp = b_timestamp b, type = the (b_type b),
             network = the (b_network b), nonce = Some (the (b_nonce b)),
             recipient = b_recipient b, tokenAddress = b_tokenAddress b, amount = b_amount b,
             fee = b_fee b, message = map_option DBytes (b_message b), payload = b_payload b,
             referenceHash = b_referenceHash b, signature = None \<rparr>)"

definition sign :: "platform \<Rightarrow> PrivateKey \<Rightarrow> TxBuilder \<Rightarrow> error + Tx" where
  "sign P privateKey b =
     bindE (buildUnsigned b) (\<lambda>unsignedTx.
     bindE (hashForSigning P unsignedTx) (\<lambda>txHashForSigning.
     bindE (PrivateKey_sign P privateKey txHashForSigning) (\<lambda>signature'.
     bindE (getAddress P privateKey) (\<lambda>sender'.
     let tx = UnsignedTx.extend (unsignedTx \<lparr> signature := Some signature' \<rparr>)
                (Tx.fields sender' [] 0)
     in
     bindE (hashTx P tx) (\<lambda>h.
     bindE (sizeTx P (tx \<lparr> hash := h \<rparr>)) (\<lambda>n.
     Inr (tx \<lparr> hash := h, txSize := n \<rparr>)))))))"

section \<open>Examples\<close>

text \<open>
  A platform and transactions for concrete evaluations. The hash and the signature of this
  platform are constants; every theorem below is proved for an arbitrary platform.
\<close>

definition exampleHash :: Hash where
  "exampleHash = ''0x0000000000000000000000000000000000000000000000000000000000000000''"

definition exampleR :: int where
  "exampleR = 0x0101010101010101010101010101010101010101010101010101010101010101"

definition examplePlatform :: platform where
  "examplePlatform =
     \<lparr> keccak256 = (\<lambda>data. exampleHash),
       secp256k1_sign = (\<lambda>h key. (exampleR, exampleR, 0)),
       secp256k1_getPublicKey = (\<lambda>key. replicate 65 0),
       secp256k1_recoverPublicKey = (\<lambda>r s recoveryId h. Inr (replicate 65 0)),
       TextEncoder_encode = map (\<lambda>c. of_nat (of_char c)),
       TextDecoder_decode = map (\<lambda>b. char_of (unat b)) \<rparr>"

definition exampleTransfer :: "int option \<Rightarrow> Signature option \<Rightarrow> UnsignedTx" where
  "exampleTransfer n sg =
     \<lparr> version = V1, timestamp = Num 1000, type = TRANSFER, network = MAINNET, nonce = n,
       recipient = Some ''0x1111111111111111111111111111111111111111'',
       tokenAddress = None, amount = Some 5, fee = 200, message = None, payload = None,
       referenceHash = None, signature = sg \<rparr>"

definition exampleSignature :: Signature where
  "exampleSignature =
     ''0x0101010101010101010101010101010101010101010101010101010101010101'' @
     ''0101010101010101010101010101010101010101010101010101010101010101'' @ ''1b''"


definition exampleTransferBuilder :: TxBuilder where
  "exampleTransferBuilder =
     set_referenceHash (''0x'' @ replicate 64 (CHR ''a''))
       (set_payload (VotePayload APPROVAL)
         (set_recipient ''0x1111111111111111111111111111111111111111''
           (set_nonce 1 (set_network MAINNET (set_type TRANSFER (create (Num 1000)))))))"

definition exampleBipCreateBuilder :: TxBuilder where
  "exampleBipCreateBuilder =
     set_referenceHash (''0x'' @ replicate 64 (CHR ''a''))
       (set_payload (AuthorityAddPayload ''0x2222222222222222222222222222222222222222'')
         (set_recipient ''0x1111111111111111111111111111111111111111''
           (set_nonce 1 (set_network MAINNET (set_type BIP_CREATE (create (Num 1000)))))))"

text \<open>
  The encoding, with signature, of \<open>exampleTransfer None (Some exampleSignature)\<close>: the nonce
  position holds the empty list.
\<close>

definition exampleWireAbsentNonce :: bytes where
  "exampleWireAbsentNonce =
     [248, 104, 1, 130, 3, 232, 128, 128, 192, 213, 148, 17, 17, 17, 17, 17, 17, 17, 17,
      17, 17, 17, 17, 17, 17, 17, 17, 17, 17, 17, 17, 192, 193, 5, 129, 200, 192, 192,
      192, 184, 65] @ replicate 64 1 @ [27]"

text \<open>
  An input whose nonce position holds the empty list, whose fee position holds the list of
  the byte 5, whose message position holds the list of the empty list, and whose payload
  position holds a byte string, the encoding of the list of an approval vote.
\<close>

definition exampleWireUntyped :: bytes where
  "exampleWireUntyped =
     [248, 109, 1, 130, 3, 232, 128, 128, 192, 213, 148] @ replicate 20 17 @
     [192, 193, 5, 193, 5, 193, 192, 132, 195, 194, 9, 1, 192, 184, 65] @ replicate 64 1 @ [27]"

text \<open>
  Two strings that are no hexadecimal form of 65 bytes: the example signature followed by
  one more character, and a string of 132 characters of which 124 are no hexadecimal digits.
\<close>

definition oddLengthSignature :: Signature where
  "oddLengthSignature = exampleSignature @ ''Z''"

definition nonHexSignature :: Signature where
  "nonHexSignature =
     ''0x'' @ concat (replicate 31 ''zz'') @ ''01'' @ concat (replicate 31 ''zz'') @ ''01'' @ ''1b''"

text \<open>
  A signed BIP_CREATE transaction whose TOKEN_CREATE payload has no website, no logo and no
  maximal supply, and its encoding with signature.
\<close>

definition exampleTokenCreate :: Tx where
  "exampleTokenCreate =
     \<lparr> version = V1, timestamp = Num 1000, type = BIP_CREATE, network = MAINNET, nonce = Some 3,
       recipient = None, tokenAddress = None, amount = None, fee = 200, message = None,
       payload = Some (TokenCreatePayload ''Tok'' ''t'' (Num 8) None None None False),
       referenceHash = None, signature = Some exampleSignature,
       sender = ZERO_ADDRESS, hash = exampleHash, txSize = 97 \<rparr>"

definition exampleTokenCreateWire :: bytes where
  "exampleTokenCreateWire =
     [248, 95, 1, 130, 3, 232, 1, 128, 193, 3, 192, 192, 192, 129, 200, 192, 204, 203, 6,
      131, 84, 111, 107, 116, 8, 192, 192, 192, 128, 192, 184, 65] @ replicate 64 1 @ [27]"

definition exampleTokenCreateBuilder :: TxBuilder where
  "exampleTokenCreateBuilder =
     set_payload (createTokenCreatePayload
         \<lparr> p_name = ''Tok'', p_smallestUnitName = ''t'', p_numberOfDecimals = Num 8,
           p_websiteUrl = None, p_logoUrl = None, p_maxSupply = None, p_userBurnable = None \<rparr>)
       (set_fee 200 (set_nonce 3 (set_network MAINNET (set_type BIP_CREATE (create (Num 1000))))))"

section \<open>Properties\<close>

lemma replicate_numeral_cons: "replicate (numeral k) x = x # replicate (pred_numeral k) x"
  by (simp add: numeral_eq_Suc)




lemma minimalBytes_0 [simp]: "minimalBytes 0 = []"
  by (subst minimalBytes.simps) simp

lemma toString16_small: "n < 16 \<Longrightarrow> toString16 n = [hexChar n]"
  by (subst toString16.simps) simp

lemma hexDigitValue_hexChar: "d < 16 \<Longrightarrow> hexDigitValue (hexChar d) = Some d"
  by (auto simp: hexDigitValue_def hexChar_def Let_def)

lemma isHexDigit_hexChar: "d < 16 \<Longrightarrow> isHexDigit (hexChar d)"
  by (simp add: isHexDigit_def hexDigitValue_hexChar)

lemma not_ws_hexChar: "d < 16 \<Longrightarrow> \<not> isStrWhiteSpaceChar (hexChar d)"
  by (auto simp: isStrWhiteSpaceChar_def hexChar_def)

lemma hexChar_not_special:
  assumes "d < 16"
  shows "hexChar d \<noteq> CHR ''-''" "hexChar d \<noteq> CHR ''+''" "hexChar d \<noteq> CHR ''x''" "hexChar d \<noteq> CHR ''X''"
proof -
  have v: "hexDigitValue (hexChar d) = Some d" using assms by (rule hexDigitValue_hexChar)
  have n: "hexDigitValue (CHR ''-'') = None" "hexDigitValue (CHR ''+'') = None"
    "hexDigitValue (CHR ''x'') = None" "hexDigitValue (CHR ''X'') = None"
    by (simp_all add: hexDigitValue_def)
  show "hexChar d \<noteq> CHR ''-''" "hexChar d \<noteq> CHR ''+''" "hexChar d \<noteq> CHR ''x''" "hexChar d \<noteq> CHR ''X''"
    using v n by auto
qed

lemma parseInt16_pair:
  assumes "a < 16" "b < 16"
  shows "parseInt16 [hexChar a, hexChar b] = Some (int (16 * a + b))"
  using assms
  by (simp add: parseInt16_def Let_def not_ws_hexChar hexChar_not_special isHexDigit_hexChar
      hexValue_def hexDigitValue_hexChar)

lemma toUint8_pair:
  assumes "a < 16" "b < 16"
  shows "toUint8 (parseInt16 [hexChar a, hexChar b]) = of_nat (16 * a + b)"
  using assms by (simp add: parseInt16_pair toUint8_def)

lemma zero_char_hexChar: "CHR ''0'' = hexChar 0"
  by code_simp

lemma toString16_step:
  assumes "256 \<le> n"
  shows "toString16 n = toString16 (n div 256) @ [hexChar ((n div 16) mod 16), hexChar (n mod 16)]"
proof -
  have a: "toString16 n = toString16 (n div 16) @ [hexChar (n mod 16)]"
    using assms by (subst toString16.simps) simp
  have "16 \<le> n div 16" using assms by simp
  then have b: "toString16 (n div 16) = toString16 (n div 16 div 16) @ [hexChar ((n div 16) mod 16)]"
    by (subst toString16.simps) simp
  have c: "n div 16 div 16 = n div 256" by (simp add: div_mult2_eq)
  show ?thesis using a b c by simp
qed


lemma evenPad_even: "even (length (evenPad s))"
  by (auto simp: evenPad_def)

lemma evenPad_append2: "evenPad (xs @ [a, b]) = evenPad xs @ [a, b]"
  by (auto simp: evenPad_def)

lemma hexPairs_append2:
  "even (length xs) \<Longrightarrow> hexPairs (xs @ [a, b]) = hexPairs xs @ [toUint8 (parseInt16 [a, b])]"
  by (induction xs rule: hexPairs.induct) simp_all

lemma hexPairs_toString16:
  "0 < n \<Longrightarrow> hexPairs (evenPad (toString16 n)) = minimalBytes n"
proof (induction n rule: less_induct)
  case (less n)
  show ?case
  proof (cases "n < 256")
    case True
    show ?thesis
    proof (cases "n < 16")
      case True
      then have "toString16 n = [hexChar n]" by (subst toString16.simps) simp
      then have "hexPairs (evenPad (toString16 n)) = [of_nat n]"
        using True toUint8_pair[of 0 n] by (simp add: evenPad_def zero_char_hexChar)
      moreover have "minimalBytes n = [of_nat n]"
        using less.prems True by (subst minimalBytes.simps) simp
      ultimately show ?thesis by simp
    next
      case False
      with True have d: "n div 16 < 16" "n mod 16 < 16" by auto
      from False True d have "toString16 n = [hexChar (n div 16), hexChar (n mod 16)]"
        by (subst toString16.simps) (simp add: toString16_small)
      then have "hexPairs (evenPad (toString16 n)) = [of_nat n]"
        using toUint8_pair[OF d] by (simp add: evenPad_def)
      moreover have "minimalBytes n = [of_nat n]"
        using less.prems True by (subst minimalBytes.simps) simp
      ultimately show ?thesis by simp
    qed
  next
    case False
    then have ge: "256 \<le> n" by simp
    then have pos: "0 < n div 256" by simp
    have lt: "n div 256 < n" using ge by simp
    have IH: "hexPairs (evenPad (toString16 (n div 256))) = minimalBytes (n div 256)"
      using less.IH[OF lt pos] .
    have d: "(n div 16) mod 16 < 16" "n mod 16 < 16" by auto
    have e: "16 * ((n div 16) mod 16) + n mod 16 = n mod 256"
      using mod_mult2_eq[of n 16 16] by simp
    have s1: "evenPad (toString16 n) =
          evenPad (toString16 (n div 256)) @ [hexChar ((n div 16) mod 16), hexChar (n mod 16)]"
      by (simp only: toString16_step[OF ge] evenPad_append2)
    have s3: "toUint8 (parseInt16 [hexChar ((n div 16) mod 16), hexChar (n mod 16)]) = of_nat (n mod 256)"
      using toUint8_pair[OF d] by (simp only: e)
    have "hexPairs (evenPad (toString16 n)) =
          hexPairs (evenPad (toString16 (n div 256))) @ [of_nat (n mod 256)]"
      by (simp only: s1 hexPairs_append2[OF evenPad_even] s3)
    moreover have "minimalBytes n = minimalBytes (n div 256) @ [of_nat (n mod 256)]"
      using less.prems by (subst minimalBytes.simps) simp
    ultimately show ?thesis using IH by simp
  qed
qed

lemma encodeScalar_nonneg: "0 \<le> v \<Longrightarrow> encodeScalar v = minimalBytes (nat v)"
proof (cases "v = 0")
  case True
  then show ?thesis by (simp add: encodeScalar_def)
next
  case False
  assume "0 \<le> v"
  with False have pos: "0 < nat v" by simp
  have "encodeScalar v = hexPairs (evenPad (toString16 (nat v)))"
    using False \<open>0 \<le> v\<close>
    by (simp add: encodeScalar_def bigintToString16_def hexToBytes_def evenPad_def Let_def)
  then show ?thesis using hexPairs_toString16[OF pos] by simp
qed

lemma minimalBytes_single: "0 < n \<Longrightarrow> n < 256 \<Longrightarrow> minimalBytes n = [of_nat n]"
  by (subst minimalBytes.simps) simp

lemma bytesValue_append: "bytesValue (xs @ [b]) = 256 * bytesValue xs + unat b"
  by (simp add: bytesValue_def)

lemma bytesValue_minimalBytes: "bytesValue (minimalBytes n) = n"
proof (induction n rule: less_induct)
  case (less n)
  show ?case
  proof (cases "n = 0")
    case True
    then show ?thesis by (simp add: bytesValue_def)
  next
    case False
    then have lt: "n div 256 < n" by simp
    have u: "unat (of_nat (n mod 256) :: byte) = n mod 256"
      by (simp add: unat_of_nat)
    have "minimalBytes n = minimalBytes (n div 256) @ [of_nat (n mod 256)]"
      using False by (subst minimalBytes.simps) simp
    then show ?thesis using less.IH[OF lt] u by (simp add: bytesValue_append)
  qed
qed

lemma minimalBytes_no_leading_zero: "0 < n \<Longrightarrow> hd (minimalBytes n) \<noteq> 0"
proof (induction n rule: less_induct)
  case (less n)
  show ?case
  proof (cases "n < 256")
    case True
    then have "minimalBytes n = [of_nat n]" using less.prems by (rule_tac minimalBytes_single)
    moreover have "(of_nat n :: byte) \<noteq> 0"
    proof
      assume "(of_nat n :: byte) = 0"
      then have "unat (of_nat n :: byte) = 0" by simp
      then show False using True less.prems by (simp add: unat_of_nat)
    qed
    ultimately show ?thesis by simp
  next
    case False
    then have pos: "0 < n div 256" and lt: "n div 256 < n" by simp_all
    have ne: "minimalBytes (n div 256) \<noteq> []" using pos by (subst minimalBytes.simps) simp
    have "minimalBytes n = minimalBytes (n div 256) @ [of_nat (n mod 256)]"
      using less.prems by (subst minimalBytes.simps) simp
    then show ?thesis using less.IH[OF lt pos] ne by simp
  qed
qed


lemma bindE_Inr [simp]: "bindE (Inr x) f = f x"
  by (simp add: bindE_def)

lemma bindE_Inl [simp]: "bindE (Inl e) f = Inl e"
  by (simp add: bindE_def)

lemma bindE_eq_Inr: "bindE m f = Inr y \<longleftrightarrow> (\<exists>x. m = Inr x \<and> f x = Inr y)"
  by (cases m) simp_all

lemma bindE_eq_Inl: "bindE m f = Inl e \<longleftrightarrow> (m = Inl e \<or> (\<exists>x. m = Inr x \<and> f x = Inl e))"
  by (cases m) simp_all

subsection \<open>The writer appends one element per call\<close>

lemma writeScalar_eq: "writeScalar v w = w @ [ElemBytes (encodeScalar v)]"
  by (simp add: writeScalar_def)

lemma writeIntScalar_eq: "writeIntScalar v w = w @ [ElemBytes (encodeScalar v)]"
  by (simp add: writeIntScalar_def writeScalar_def)

lemma writeLongScalar_eq: "writeLongScalar v w = w @ [ElemBytes (encodeScalar v)]"
  by (simp add: writeLongScalar_def writeScalar_def)

lemma writeBigIntegerScalar_eq: "writeBigIntegerScalar v w = w @ [ElemBytes (encodeScalar v)]"
  by (simp add: writeBigIntegerScalar_def writeScalar_def)

lemma writeWeiScalar_eq: "writeWeiScalar v w = w @ [ElemBytes (encodeScalar v)]"
  by (simp add: writeWeiScalar_def writeBigIntegerScalar_eq)

lemma writeOptionalLongScalar_eq:
  "writeOptionalLongScalar v w =
     w @ [case v of None \<Rightarrow> ElemRaw [0xc0] | Some n \<Rightarrow> ElemList [ElemBytes (encodeScalar n)]]"
  by (cases v) (simp_all add: writeOptionalLongScalar_def writeEmptyList_def writeList_def writeLongScalar_eq)

lemma writeOptionalWeiScalar_eq:
  "writeOptionalWeiScalar v w =
     w @ [case v of None \<Rightarrow> ElemRaw [0xc0] | Some n \<Rightarrow> ElemList [ElemBytes (encodeScalar n)]]"
  by (cases v)
    (simp_all add: writeOptionalWeiScalar_def writeEmptyList_def writeList_def writeBigIntegerScalar_eq)

lemma writeOptionalBigInteger_eq:
  "writeOptionalBigInteger v w =
     w @ [case v of None \<Rightarrow> ElemRaw [0xc0] | Some n \<Rightarrow> ElemList [ElemBytes (encodeScalar n)]]"
  by (cases v)
    (simp_all add: writeOptionalBigInteger_def writeEmptyList_def addList_def startList_def
      writeBigIntegerScalar_eq)

lemma writeOptionalAddress_eq:
  "writeOptionalAddress v w =
     w @ [case v of None \<Rightarrow> ElemRaw [0xc0] | Some a \<Rightarrow> ElemList [ElemBytes (hexToBytes a)]]"
  by (cases v)
    (simp_all add: writeOptionalAddress_def writeEmptyList_def addList_def startList_def writeBytes_def)

lemma writeOptionalAddressField_eq:
  "writeOptionalAddressField v w =
     w @ [case v of None \<Rightarrow> ElemRaw [0xc0] | Some a \<Rightarrow> ElemList [ElemBytes (hexToBytes a)]]"
  by (cases v)
    (simp_all add: writeOptionalAddressField_def writeEmptyList_def addList_def startList_def
      writeBytes_def)

lemma writeOptionalString_eq:
  "writeOptionalString P v w =
     w @ [case v of None \<Rightarrow> ElemRaw [0xc0]
          | Some x \<Rightarrow> ElemList [ElemBytes (encodeString_utf8 P x)]]"
  by (cases v)
    (simp_all add: writeOptionalString_def writeEmptyList_def addList_def startList_def writeBytes_def)

lemma writeOptionalBytes_eq:
  "writeOptionalBytes v w =
     w @ [case v of None \<Rightarrow> ElemRaw [0xc0] | Some x \<Rightarrow> ElemList (writeBytes_value x [])]"
  by (cases v) (simp_all add: writeOptionalBytes_def writeEmptyList_def writeList_def)

lemma writeOptionalBytes32_eq:
  "writeOptionalBytes32 v w =
     w @ [case v of None \<Rightarrow> ElemRaw [0xc0] | Some x \<Rightarrow> ElemList [ElemBytes x]]"
  by (cases v) (simp_all add: writeOptionalBytes32_def writeEmptyList_def writeList_def writeBytes_def)

lemma writeOptionalRaw_Some: "writeOptionalRaw (Some x) w = w @ [ElemList [ElemRaw x]]"
  by (simp add: writeOptionalRaw_def writeList_def writeRaw_def)

lemmas writer_eqs =
  writeScalar_eq writeIntScalar_eq writeLongScalar_eq writeBigIntegerScalar_eq writeWeiScalar_eq
  writeOptionalLongScalar_eq writeOptionalWeiScalar_eq writeOptionalBigInteger_eq
  writeOptionalAddress_eq writeOptionalAddressField_eq writeOptionalString_eq
  writeOptionalBytes_eq writeOptionalBytes32_eq writeOptionalRaw_Some writeBytes_def
  writeEmptyList_def

subsection \<open>The elements of an encoded transaction\<close>

lemma txElements_Inr:
  assumes "txElements P tx includeSignature = Inr w"
  shows "\<exists>ts pb. BigInt_number (timestamp tx) = Inr ts \<and>
          encodePayload P (payload tx) (version tx) = Inr pb \<and>
          w = ElemBytes (encodeScalar (TxVersion_code (version tx)))
            # ElemBytes (encodeScalar ts)
            # ElemBytes (encodeScalar (TxType_code (type tx)))
            # ElemBytes (encodeScalar (Network_code (network tx)))
            # (case nonce tx of None \<Rightarrow> ElemRaw [0xc0]
               | Some n \<Rightarrow> ElemList [ElemBytes (encodeScalar n)])
            # (case recipient tx of None \<Rightarrow> ElemRaw [0xc0]
               | Some a \<Rightarrow> ElemList [ElemBytes (hexToBytes a)])
            # (case tokenAddress tx of None \<Rightarrow> ElemRaw [0xc0]
               | Some a \<Rightarrow> ElemList [ElemBytes (hexToBytes a)])
            # (case amount tx of None \<Rightarrow> ElemRaw [0xc0]
               | Some n \<Rightarrow> ElemList [ElemBytes (encodeScalar n)])
            # ElemBytes (encodeScalar (fee tx))
            # (case message tx of None \<Rightarrow> ElemRaw [0xc0]
               | Some m \<Rightarrow> ElemList (writeBytes_value m []))
            # (if length pb = 0 \<or> isEmptyPayload pb then ElemRaw [0xc0] else ElemList [ElemRaw pb])
            # (if truthy (referenceHash tx)
               then ElemList [ElemBytes (hexToBytes (the (referenceHash tx)))] else ElemRaw [0xc0])
            # (if includeSignature \<and> truthy (signature tx)
               then [ElemBytes (hexToBytes (the (signature tx)))] else [])"
proof -
  from assms obtain ts where ts: "BigInt_number (timestamp tx) = Inr ts"
    by (cases "BigInt_number (timestamp tx)") (simp_all add: txElements_def Let_def)
  from assms ts obtain pb where pb: "encodePayload P (payload tx) (version tx) = Inr pb"
    by (cases "encodePayload P (payload tx) (version tx)") (simp_all add: txElements_def Let_def)
  from assms have "w = ElemBytes (encodeScalar (TxVersion_code (version tx)))
            # ElemBytes (encodeScalar ts)
            # ElemBytes (encodeScalar (TxType_code (type tx)))
            # ElemBytes (encodeScalar (Network_code (network tx)))
            # (case nonce tx of None \<Rightarrow> ElemRaw [0xc0]
               | Some n \<Rightarrow> ElemList [ElemBytes (encodeScalar n)])
            # (case recipient tx of None \<Rightarrow> ElemRaw [0xc0]
               | Some a \<Rightarrow> ElemList [ElemBytes (hexToBytes a)])
            # (case tokenAddress tx of None \<Rightarrow> ElemRaw [0xc0]
               | Some a \<Rightarrow> ElemList [ElemBytes (hexToBytes a)])
            # (case amount tx of None \<Rightarrow> ElemRaw [0xc0]
               | Some n \<Rightarrow> ElemList [ElemBytes (encodeScalar n)])
            # ElemBytes (encodeScalar (fee tx))
            # (case message tx of None \<Rightarrow> ElemRaw [0xc0]
               | Some m \<Rightarrow> ElemList (writeBytes_value m []))
            # (if length pb = 0 \<or> isEmptyPayload pb then ElemRaw [0xc0] else ElemList [ElemRaw pb])
            # (if truthy (referenceHash tx)
               then ElemList [ElemBytes (hexToBytes (the (referenceHash tx)))] else ElemRaw [0xc0])
            # (if includeSignature \<and> truthy (signature tx)
               then [ElemBytes (hexToBytes (the (signature tx)))] else [])"
    unfolding txElements_def Let_def ts pb bindE_Inr
    by (auto simp: writer_eqs)
  with ts pb show ?thesis by blast
qed

lemma encodeTx_parts:
  assumes "txElements P tx includeSignature = Inr w"
  shows "encodeTx P tx includeSignature =
           Inr (encodeListHeader (sum_list (map length (encodedParts w))) @ concat (encodedParts w))"
  using assms
  by (cases "version tx") (simp add: encodeTx_def encodeTxV1_def encode_def encodeElements_def Let_def)


subsection \<open>Sizes of encoded parts\<close>



lemma encodeElem_ElemList: "encodeElem (ElemList es) = encodeElements es"
  by (simp add: encodeElements_def encodedParts_def Let_def)





text \<open>
  C4. A non-negative scalar is written as its minimal big-endian bytes: zero as the empty
  string, whose wire form is the byte 0x80; a value whose minimal form is one byte below 0x80
  as that byte; a value whose minimal form is one byte from 0x80 on as 0x81 and that byte.
\<close>

theorem scalar_wire_form:
  "encodeScalar 0 = []
   \<and> encodedParts (writeScalar 0 []) = [[0x80]]
   \<and> (0 \<le> v \<longrightarrow> encodeScalar v = minimalBytes (nat v) \<and> bytesValue (encodeScalar v) = nat v)
   \<and> (0 < v \<longrightarrow> hd (encodeScalar v) \<noteq> 0)
   \<and> (0 \<le> v \<and> minimalBytes (nat v) = [b] \<and> b < 0x80 \<longrightarrow> encodedParts (writeScalar v []) = [[b]])
   \<and> (0 \<le> v \<and> minimalBytes (nat v) = [b] \<and> 0x80 \<le> b
        \<longrightarrow> encodedParts (writeScalar v []) = [[0x81, b]])"
proof -
  have z: "encodeScalar 0 = []" by (simp add: encodeScalar_def)
  have p1: "encodedParts (writeScalar 0 []) = [[0x80]]"
    by (simp add: encodedParts_def writeScalar_def z encodeString_def)
  have p2: "0 \<le> v \<longrightarrow> encodeScalar v = minimalBytes (nat v) \<and> bytesValue (encodeScalar v) = nat v"
    by (simp add: encodeScalar_nonneg bytesValue_minimalBytes)
  have p3: "0 < v \<longrightarrow> hd (encodeScalar v) \<noteq> 0"
    using minimalBytes_no_leading_zero[of "nat v"] by (simp add: encodeScalar_nonneg)
  have p4: "0 \<le> v \<and> minimalBytes (nat v) = [b] \<and> b < 0x80 \<longrightarrow> encodedParts (writeScalar v []) = [[b]]"
    by (simp add: encodedParts_def writeScalar_def encodeScalar_nonneg encodeString_def)
  have p5: "0 \<le> v \<and> minimalBytes (nat v) = [b] \<and> 0x80 \<le> b
        \<longrightarrow> encodedParts (writeScalar v []) = [[0x81, b]]"
    by (auto simp: encodedParts_def writeScalar_def encodeScalar_nonneg encodeString_def)
  from z p1 p2 p3 p4 p5 show ?thesis by blast
qed

theorem scalar_wire_form_witness:
  "encodedParts (writeScalar 5 []) = [[5]]
   \<and> encodedParts (writeScalar 200 []) = [[0x81, 200]]
   \<and> encodeScalar 1000 = [3, 232]"
proof -
  have m5: "minimalBytes (nat 5) = [5]" by (simp add: minimalBytes_single)
  have m200: "minimalBytes (nat 200) = [200]" by (simp add: minimalBytes_single)
  have m1000: "minimalBytes (nat 1000) = [3, 232]"
    by (simp add: minimalBytes.simps[of 1000] minimalBytes_single)
  show ?thesis
    using scalar_wire_form[of 5 5] scalar_wire_form[of 200 200] scalar_wire_form[of 1000 0]
      m5 m200 m1000
    by simp
qed

text \<open>
  C3. In the encoding of a transaction the part at the nonce position (index 4 of the outer
  list) is the two bytes 0xc1 0x80 when the nonce is 0, and the single byte 0xc0 when the
  nonce is absent; the two differ.
\<close>

theorem nonce_zero_differs_from_absent:
  assumes "txElements P tx includeSignature = Inr w"
  shows "encodeTx P tx includeSignature =
           Inr (encodeListHeader (sum_list (map length (encodedParts w))) @ concat (encodedParts w))
         \<and> length (encodedParts w) = (if includeSignature \<and> truthy (signature tx) then 13 else 12)
         \<and> (nonce tx = Some 0 \<longrightarrow> encodedParts w ! 4 = [0xc1, 0x80])
         \<and> (nonce tx = None \<longrightarrow> encodedParts w ! 4 = [0xc0])
         \<and> [0xc1, 0x80] \<noteq> ([0xc0] :: bytes)"
proof -
  from txElements_Inr[OF assms] obtain ts pb where
    w: "w = ElemBytes (encodeScalar (TxVersion_code (version tx)))
            # ElemBytes (encodeScalar ts)
            # ElemBytes (encodeScalar (TxType_code (type tx)))
            # ElemBytes (encodeScalar (Network_code (network tx)))
            # (case nonce tx of None \<Rightarrow> ElemRaw [0xc0]
               | Some n \<Rightarrow> ElemList [ElemBytes (encodeScalar n)])
            # (case recipient tx of None \<Rightarrow> ElemRaw [0xc0]
               | Some a \<Rightarrow> ElemList [ElemBytes (hexToBytes a)])
            # (case tokenAddress tx of None \<Rightarrow> ElemRaw [0xc0]
               | Some a \<Rightarrow> ElemList [ElemBytes (hexToBytes a)])
            # (case amount tx of None \<Rightarrow> ElemRaw [0xc0]
               | Some n \<Rightarrow> ElemList [ElemBytes (encodeScalar n)])
            # ElemBytes (encodeScalar (fee tx))
            # (case message tx of None \<Rightarrow> ElemRaw [0xc0]
               | Some m \<Rightarrow> ElemList (writeBytes_value m []))
            # (if length pb = 0 \<or> isEmptyPayload pb then ElemRaw [0xc0] else ElemList [ElemRaw pb])
            # (if truthy (referenceHash tx)
               then ElemList [ElemBytes (hexToBytes (the (referenceHash tx)))] else ElemRaw [0xc0])
            # (if includeSignature \<and> truthy (signature tx)
               then [ElemBytes (hexToBytes (the (signature tx)))] else [])"
    by blast
  have len: "length (encodedParts w) = (if includeSignature \<and> truthy (signature tx) then 13 else 12)"
    by (subst w) (simp add: encodedParts_def)
  have n4: "encodedParts w ! 4 =
      encodeElem (case nonce tx of None \<Rightarrow> ElemRaw [0xc0]
                  | Some n \<Rightarrow> ElemList [ElemBytes (encodeScalar n)])"
    by (subst w) (simp add: encodedParts_def)
  have zero: "nonce tx = Some 0 \<longrightarrow> encodedParts w ! 4 = [0xc1, 0x80]"
    by (simp add: n4 encodeScalar_def encodeString_def encodeListHeader_def)
  have absent: "nonce tx = None \<longrightarrow> encodedParts w ! 4 = [0xc0]"
    by (simp add: n4)
  show ?thesis using encodeTx_parts[OF assms] len zero absent by simp
qed

theorem nonce_zero_differs_from_absent_witness:
  "(\<exists>w. txElements examplePlatform (exampleTransfer (Some 0) None) False = Inr w
        \<and> encodedParts w ! 4 = [0xc1, 0x80])
   \<and> (\<exists>w. txElements examplePlatform (exampleTransfer None None) False = Inr w
        \<and> encodedParts w ! 4 = [0xc0])"
proof -
  obtain w0 where w0: "txElements examplePlatform (exampleTransfer (Some 0) None) False = Inr w0"
    by (simp add: txElements_def exampleTransfer_def BigInt_number_def encodePayload_def Let_def)
  obtain w1 where w1: "txElements examplePlatform (exampleTransfer None None) False = Inr w1"
    by (simp add: txElements_def exampleTransfer_def BigInt_number_def encodePayload_def Let_def)
  have "encodedParts w0 ! 4 = [0xc1, 0x80]"
    using nonce_zero_differs_from_absent[OF w0] by (simp add: exampleTransfer_def)
  moreover have "encodedParts w1 ! 4 = [0xc0]"
    using nonce_zero_differs_from_absent[OF w1] by (simp add: exampleTransfer_def)
  ultimately show ?thesis using w0 w1 by blast
qed




text \<open>
  C7. The encoding without signature, and with it the signing hash, does not depend on the
  signature field: two transactions that agree on every other field have the same
  signing hash.
\<close>

theorem signing_hash_ignores_signature:
  "txElements P (tx \<lparr> signature := s \<rparr>) False = txElements P tx False
   \<and> encodeTx P (tx \<lparr> signature := s \<rparr>) False = encodeTx P tx False
   \<and> hashForSigning P (tx \<lparr> signature := s \<rparr>) = hashForSigning P tx"
proof -
  have e: "txElements P (tx \<lparr> signature := s \<rparr>) False = txElements P tx False"
    by (simp add: txElements_def)
  then have "encodeTx P (tx \<lparr> signature := s \<rparr>) False = encodeTx P tx False"
    by (cases "version tx") (simp add: encodeTx_def encodeTxV1_def)
  with e show ?thesis by (simp add: hashForSigning_def)
qed


subsection \<open>The hexadecimal reading of bytes\<close>

lemma unat_byte_less: "unat (b :: byte) < 256"
  using unsigned_less[of b, where ?'a = nat] by simp

lemma pad2_byte:
  "padStart 2 (CHR ''0'') (toString16 (unat (b :: byte))) =
     [hexChar (unat b div 16), hexChar (unat b mod 16)]"
proof (cases "unat b < 16")
  case True
  then show ?thesis
    by (simp add: toString16_small padStart_def zero_char_hexChar)
next
  case False
  have "unat b div 16 < 16" using unat_byte_less[of b] by simp
  then have "toString16 (unat b) = [hexChar (unat b div 16), hexChar (unat b mod 16)]"
    using False by (subst toString16.simps) (simp add: toString16_small)
  then show ?thesis by (simp add: padStart_def)
qed

lemma hexValue_snoc2:
  "a < 16 \<Longrightarrow> b < 16 \<Longrightarrow> hexValue (xs @ [hexChar a, hexChar b]) = 256 * hexValue xs + (16 * a + b)"
  by (simp add: hexValue_def hexDigitValue_hexChar)

lemma hex_digits_of_bytes:
  "list_all isHexDigit (concat (map (\<lambda>b. padStart 2 (CHR ''0'') (toString16 (unat b))) bs))
   \<and> hexValue (concat (map (\<lambda>b. padStart 2 (CHR ''0'') (toString16 (unat b))) bs)) = bytesValue bs"
proof (induction bs rule: rev_induct)
  case Nil
  then show ?case by (simp add: hexValue_def bytesValue_def)
next
  case (snoc b bs)
  have d: "unat b div 16 < 16" "unat b mod 16 < 16"
    using unat_byte_less[of b] by simp_all
  have v: "16 * (unat b div 16) + unat b mod 16 = unat b" by simp
  show ?case
    using snoc d v
    by (simp add: pad2_byte isHexDigit_hexChar hexValue_snoc2 bytesValue_append)
qed

lemma BigInt_hex_bytesToHex: "bs \<noteq> [] \<Longrightarrow> BigInt_hex (bytesToHex bs) = Inr (int (bytesValue bs))"
proof -
  assume ne: "bs \<noteq> []"
  then obtain b rest where br: "bs = b # rest" by (cases bs) auto
  have "concat (map (\<lambda>b. padStart 2 (CHR ''0'') (toString16 (unat b))) bs) \<noteq> []"
    by (simp add: br pad2_byte)
  then show ?thesis
    using hex_digits_of_bytes[of bs] by (simp add: BigInt_hex_def bytesToHex_def)
qed

lemma decodeScalar_value: "decodeScalar bs = Inr (int (bytesValue bs))"
  by (cases "bs = []") (simp_all add: decodeScalar_def BigInt_hex_bytesToHex bytesValue_def)

lemma isSignatureStructurallyValid_iff:
  "isSignatureStructurallyValid sg =
     (length (hexToBytes sg) = 65
      \<and> (hexToBytes sg ! 64 = 27 \<or> hexToBytes sg ! 64 = 28)
      \<and> 0 < bytesValue (take 32 (hexToBytes sg))
      \<and> int (bytesValue (take 32 (hexToBytes sg))) < CURVE_N
      \<and> 0 < bytesValue (take 32 (drop 32 (hexToBytes sg)))
      \<and> 2 * int (bytesValue (take 32 (drop 32 (hexToBytes sg)))) \<le> CURVE_N)
   \<and> (\<exists>b. isSignatureStructurallyValid_try sg = Inr b)"
proof (cases "length (hexToBytes sg) = 65")
  case False
  then show ?thesis
    by (auto simp: isSignatureStructurallyValid_def isSignatureStructurallyValid_try_def Let_def)
next
  case True
  define bs where "bs = hexToBytes sg"
  have len: "length bs = 65" using True by (simp add: bs_def)
  have r: "BigInt_hex (bytesToHex (take 32 bs)) = Inr (int (bytesValue (take 32 bs)))"
    using len by (intro BigInt_hex_bytesToHex) auto
  have s: "BigInt_hex (bytesToHex (take 32 (drop 32 bs))) = Inr (int (bytesValue (take 32 (drop 32 bs))))"
    using len by (intro BigInt_hex_bytesToHex) auto
  have half: "(x > HALF_CURVE_ORDER) = (\<not> 2 * x \<le> CURVE_N)" for x :: int
    unfolding HALF_CURVE_ORDER_def by linarith
  have t: "isSignatureStructurallyValid_try sg =
       Inr ((bs ! 64 = 27 \<or> bs ! 64 = 28)
            \<and> 0 < bytesValue (take 32 bs) \<and> int (bytesValue (take 32 bs)) < CURVE_N
            \<and> 0 < bytesValue (take 32 (drop 32 bs))
            \<and> 2 * int (bytesValue (take 32 (drop 32 bs))) \<le> CURVE_N)"
    unfolding isSignatureStructurallyValid_try_def Let_def bs_def[symmetric]
    using len by (auto simp: r s half)
  show ?thesis
    unfolding isSignatureStructurallyValid_def t bs_def[symmetric]
    using len by simp
qed

lemmas hexToBytes_eval =
  hexToBytes_def toUint8_def parseInt16_def isStrWhiteSpaceChar_def isHexDigit_def
  hexDigitValue_def hexValue_def Let_def

lemma hexToBytes_oddLengthSignature: "hexToBytes oddLengthSignature = replicate 64 1 @ [27]"
  by (simp add: oddLengthSignature_def exampleSignature_def replicate_numeral_cons hexToBytes_eval)

lemma hexToBytes_nonHexSignature:
  "hexToBytes nonHexSignature = replicate 31 0 @ [1] @ replicate 31 0 @ [1, 27]"
  by (simp add: nonHexSignature_def replicate_numeral_cons hexToBytes_eval)

lemma isSignatureStructurallyValid_oddLength: "isSignatureStructurallyValid oddLengthSignature"
  by (simp add: isSignatureStructurallyValid_iff hexToBytes_oddLengthSignature
      replicate_numeral_cons bytesValue_def CURVE_N_def)

lemma isSignatureStructurallyValid_nonHex: "isSignatureStructurallyValid nonHexSignature"
  by (simp add: isSignatureStructurallyValid_iff hexToBytes_nonHexSignature
      replicate_numeral_cons bytesValue_def CURVE_N_def)

lemma isSignature_oddLength: "length oddLengthSignature = 133 \<and> \<not> isSignature oddLengthSignature"
  by (simp add: oddLengthSignature_def exampleSignature_def isSignature_def)

lemma isSignature_nonHex: "length nonHexSignature = 132 \<and> \<not> isSignature nonHexSignature"
  by (simp add: nonHexSignature_def replicate_numeral_cons isSignature_def isHexDigit_def
      hexDigitValue_def)

text \<open>
  C8. \<open>isSignatureStructurallyValid\<close> raises no error: the body of its \<open>try\<close> block returns a
  boolean. It is true exactly when \<open>hexToBytes\<close> gives 65 bytes whose last byte \<open>v\<close> is 27 or
  28, whose first 32 bytes \<open>r\<close> satisfy \<open>0 < r < n\<close> and whose next 32 bytes \<open>s\<close> satisfy \<open>0 < s\<close>
  and \<open>2 s \<le> n\<close>. But \<open>hexToBytes\<close> checks neither the length of the string nor its
  characters, so the function is true on strings that are no hexadecimal form of 65 bytes:
  on a string of 133 characters, whose last character is dropped, and on a string of 132
  characters of which 124 are no hexadecimal digits and are read as zero bytes. The type
  guard \<open>isSignature\<close> is false on both.
\<close>

theorem signature_check_accepts_malformed_hex:
  "(isSignatureStructurallyValid sg =
     (length (hexToBytes sg) = 65
      \<and> (hexToBytes sg ! 64 = 27 \<or> hexToBytes sg ! 64 = 28)
      \<and> 0 < bytesValue (take 32 (hexToBytes sg))
      \<and> int (bytesValue (take 32 (hexToBytes sg))) < CURVE_N
      \<and> 0 < bytesValue (take 32 (drop 32 (hexToBytes sg)))
      \<and> 2 * int (bytesValue (take 32 (drop 32 (hexToBytes sg)))) \<le> CURVE_N))
   \<and> (\<exists>b. isSignatureStructurallyValid_try sg = Inr b)
   \<and> isSignatureStructurallyValid oddLengthSignature
   \<and> length oddLengthSignature = 133
   \<and> \<not> isSignature oddLengthSignature
   \<and> isSignatureStructurallyValid nonHexSignature
   \<and> length nonHexSignature = 132
   \<and> \<not> isSignature nonHexSignature"
  using isSignatureStructurallyValid_iff[of sg] isSignatureStructurallyValid_oddLength
    isSignatureStructurallyValid_nonHex isSignature_oddLength isSignature_nonHex
  by blast

subsection \<open>The errors of the builder\<close>

lemma BigInt_number_not_builder: "BigInt_number n \<noteq> Inl (TxBuilderError m)"
  by (cases n) (simp_all add: BigInt_number_def)

lemma encodePayload_not_builder: "encodePayload P p v \<noteq> Inl (TxBuilderError m)"
proof (cases p)
  case None
  then show ?thesis by (simp add: encodePayload_def)
next
  case (Some q)
  have f: "encodePayloadFields P q w \<noteq> Inl (TxBuilderError m)" for w
    by (cases q) (auto simp: bindE_eq_Inl BigInt_number_not_builder)
  show ?thesis
    using Some f
    by (auto simp: encodePayload_def bindE_eq_Inl writePayloadType_def split: option.splits)
qed

lemma encodeTx_not_builder: "encodeTx P tx incl \<noteq> Inl (TxBuilderError m)"
  by (cases "version tx")
    (auto simp: encodeTx_def encodeTxV1_def txElements_def Let_def bindE_eq_Inl
      BigInt_number_not_builder encodePayload_not_builder)

lemma hashData_not_builder: "hashData P data \<noteq> Inl (TxBuilderError m)"
  by (auto simp: hashData_def toHash_hex_def Let_def)

lemma sign_builder_error:
  assumes "sign P key b = Inl (TxBuilderError m)"
  shows "validate b = Inl (TxBuilderError m)"
proof -
  have s: "PrivateKey_sign P key h \<noteq> Inl (TxBuilderError m)" for h
    by (auto simp: PrivateKey_sign_def Let_def bindE_eq_Inl setAt_def toSignature_bytes_def
        split: prod.splits if_splits)
  have a: "getAddress P key \<noteq> Inl (TxBuilderError m)"
    by (auto simp: getAddress_def toAddress_hex_def Let_def)
  show ?thesis
    using assms s a
    by (auto simp: sign_def buildUnsigned_def Let_def bindE_eq_Inl hashForSigning_def hashTx_def
        sizeTx_def encodeTx_not_builder hashData_not_builder)
qed

text \<open>
  C5, as the code has it. The builder fails with a builder error exactly when the type, the
  network or the nonce is missing, or the type is TRANSFER and the recipient is null, or the
  type is BIP_CREATE and the payload is null or the amount is set, or the type is BIP_VOTE
  and the payload or the reference hash is null or the amount is set. In such a state
  \<open>validate\<close>, \<open>buildUnsigned\<close> and \<open>sign\<close> fail with the same builder error. In every other
  state \<open>validate\<close> passes, \<open>buildUnsigned\<close> returns the record of the fields of the builder,
  with a null signature, and \<open>sign\<close> raises no builder error.
\<close>

theorem builder_rejections:
  "((b_type b = None \<or> b_network b = None \<or> b_nonce b = None
       \<or> (b_type b = Some TRANSFER \<and> b_recipient b = None)
       \<or> (b_type b = Some BIP_CREATE \<and> (b_payload b = None \<or> b_amount b \<noteq> None))
       \<or> (b_type b = Some BIP_VOTE
           \<and> (b_payload b = None \<or> b_referenceHash b = None \<or> b_amount b \<noteq> None)))
      \<longrightarrow> (\<exists>m. validate b = Inl (TxBuilderError m)
               \<and> buildUnsigned b = Inl (TxBuilderError m)
               \<and> sign P key b = Inl (TxBuilderError m)))
   \<and> (\<not> (b_type b = None \<or> b_network b = None \<or> b_nonce b = None
       \<or> (b_type b = Some TRANSFER \<and> b_recipient b = None)
       \<or> (b_type b = Some BIP_CREATE \<and> (b_payload b = None \<or> b_amount b \<noteq> None))
       \<or> (b_type b = Some BIP_VOTE
           \<and> (b_payload b = None \<or> b_referenceHash b = None \<or> b_amount b \<noteq> None)))
      \<longrightarrow> validate b = Inr ()
          \<and> buildUnsigned b =
              Inr \<lparr> version = b_version b, timestamp = b_timestamp b, type = the (b_type b),
                    network = the (b_network b), nonce = b_nonce b, recipient = b_recipient b,
                    tokenAddress = b_tokenAddress b, amount = b_amount b, fee = b_fee b,
                    message = map_option DBytes (b_message b), payload = b_payload b,
                    referenceHash = b_referenceHash b, signature = None \<rparr>
          \<and> (\<forall>m. sign P key b \<noteq> Inl (TxBuilderError m)))"
proof -
  have a: "(\<exists>m. validate b = Inl (TxBuilderError m)) =
      (b_type b = None \<or> b_network b = None \<or> b_nonce b = None
       \<or> (b_type b = Some TRANSFER \<and> b_recipient b = None)
       \<or> (b_type b = Some BIP_CREATE \<and> (b_payload b = None \<or> b_amount b \<noteq> None))
       \<or> (b_type b = Some BIP_VOTE
           \<and> (b_payload b = None \<or> b_referenceHash b = None \<or> b_amount b \<noteq> None)))"
    by (cases "b_type b"; cases "the (b_type b)") (auto simp: validate_def)
  have d: "validate b = Inl e \<Longrightarrow> buildUnsigned b = Inl e \<and> sign P key b = Inl e" for e
    by (simp add: buildUnsigned_def sign_def)
  have ok: "validate b = Inr () \<or> (\<exists>m. validate b = Inl (TxBuilderError m))"
    by (cases "b_type b"; cases "the (b_type b)") (auto simp: validate_def)
  have n: "validate b = Inr () \<Longrightarrow> Some (the (b_nonce b)) = b_nonce b"
    by (cases "b_nonce b") (auto simp: validate_def split: if_splits)
  have r: "validate b = Inr () \<Longrightarrow> buildUnsigned b =
              Inr \<lparr> version = b_version b, timestamp = b_timestamp b, type = the (b_type b),
                    network = the (b_network b), nonce = b_nonce b, recipient = b_recipient b,
                    tokenAddress = b_tokenAddress b, amount = b_amount b, fee = b_fee b,
                    message = map_option DBytes (b_message b), payload = b_payload b,
                    referenceHash = b_referenceHash b, signature = None \<rparr>"
    using n by (simp add: buildUnsigned_def)
  show ?thesis
  proof (intro conjI impI)
    assume c: "b_type b = None \<or> b_network b = None \<or> b_nonce b = None
       \<or> (b_type b = Some TRANSFER \<and> b_recipient b = None)
       \<or> (b_type b = Some BIP_CREATE \<and> (b_payload b = None \<or> b_amount b \<noteq> None))
       \<or> (b_type b = Some BIP_VOTE
           \<and> (b_payload b = None \<or> b_referenceHash b = None \<or> b_amount b \<noteq> None))"
    with a obtain m where m: "validate b = Inl (TxBuilderError m)" by blast
    from d[OF m] m show "\<exists>m. validate b = Inl (TxBuilderError m)
               \<and> buildUnsigned b = Inl (TxBuilderError m)
               \<and> sign P key b = Inl (TxBuilderError m)" by blast
  next
    assume c: "\<not> (b_type b = None \<or> b_network b = None \<or> b_nonce b = None
       \<or> (b_type b = Some TRANSFER \<and> b_recipient b = None)
       \<or> (b_type b = Some BIP_CREATE \<and> (b_payload b = None \<or> b_amount b \<noteq> None))
       \<or> (b_type b = Some BIP_VOTE
           \<and> (b_payload b = None \<or> b_referenceHash b = None \<or> b_amount b \<noteq> None)))"
    with a ok show v: "validate b = Inr ()" by blast
    from r[OF v] show "buildUnsigned b =
              Inr \<lparr> version = b_version b, timestamp = b_timestamp b, type = the (b_type b),
                    network = the (b_network b), nonce = b_nonce b, recipient = b_recipient b,
                    tokenAddress = b_tokenAddress b, amount = b_amount b, fee = b_fee b,
                    message = map_option DBytes (b_message b), payload = b_payload b,
                    referenceHash = b_referenceHash b, signature = None \<rparr>" .
    from v show "\<forall>m. sign P key b \<noteq> Inl (TxBuilderError m)"
      using sign_builder_error[of P key b] by auto
  qed
qed

lemmas builder_eval =
  create_def set_type_def set_network_def set_nonce_def set_recipient_def set_payload_def
  set_referenceHash_def

theorem builder_rejections_witness:
  "validate (create (Num 0)) = Inl (TxBuilderError ''Transaction type is required'')
   \<and> buildUnsigned (create (Num 0)) = Inl (TxBuilderError ''Transaction type is required'')
   \<and> sign examplePlatform [] (create (Num 0)) = Inl (TxBuilderError ''Transaction type is required'')
   \<and> validate exampleTransferBuilder = Inr ()
   \<and> buildUnsigned exampleTransferBuilder =
        Inr \<lparr> version = V1, timestamp = Num 1000, type = TRANSFER, network = MAINNET,
              nonce = Some 1, recipient = Some ''0x1111111111111111111111111111111111111111'',
              tokenAddress = None, amount = None, fee = 0, message = None,
              payload = Some (VotePayload APPROVAL),
              referenceHash = Some (''0x'' @ replicate 64 (CHR ''a'')), signature = None \<rparr>
   \<and> (\<forall>m. sign examplePlatform [] exampleTransferBuilder \<noteq> Inl (TxBuilderError m))"
proof -
  have v: "validate (create (Num 0)) = Inl (TxBuilderError ''Transaction type is required'')"
    by (simp add: validate_def create_def)
  have t: "b_type (create (Num 0)) = None" by (simp add: create_def)
  have f: "b_version exampleTransferBuilder = V1" "b_timestamp exampleTransferBuilder = Num 1000"
    "b_type exampleTransferBuilder = Some TRANSFER" "b_network exampleTransferBuilder = Some MAINNET"
    "b_nonce exampleTransferBuilder = Some 1"
    "b_recipient exampleTransferBuilder = Some ''0x1111111111111111111111111111111111111111''"
    "b_tokenAddress exampleTransferBuilder = None" "b_amount exampleTransferBuilder = None"
    "b_fee exampleTransferBuilder = 0" "b_message exampleTransferBuilder = None"
    "b_payload exampleTransferBuilder = Some (VotePayload APPROVAL)"
    "b_referenceHash exampleTransferBuilder = Some (''0x'' @ replicate 64 (CHR ''a''))"
    by (simp_all add: exampleTransferBuilder_def builder_eval)
  show ?thesis
    using builder_rejections[of "create (Num 0)" examplePlatform "[]"]
      builder_rejections[of exampleTransferBuilder examplePlatform "[]"] v t f
    by simp
qed

text \<open>
  C5, as stated, fails: a TRANSFER builder with a recipient, a payload and a reference hash
  passes \<open>validate\<close>, and \<open>buildUnsigned\<close> returns a record; so does a BIP_CREATE builder with a
  recipient and a reference hash.
\<close>

theorem builder_accepts_transfer_with_payload:
  "(\<exists>tx. buildUnsigned exampleTransferBuilder = Inr tx \<and> payload tx \<noteq> None \<and> referenceHash tx \<noteq> None)
   \<and> b_type exampleTransferBuilder = Some TRANSFER
   \<and> b_payload exampleTransferBuilder \<noteq> None
   \<and> b_referenceHash exampleTransferBuilder \<noteq> None
   \<and> (\<exists>tx. buildUnsigned exampleBipCreateBuilder = Inr tx \<and> recipient tx \<noteq> None \<and> referenceHash tx \<noteq> None)
   \<and> b_type exampleBipCreateBuilder = Some BIP_CREATE
   \<and> b_recipient exampleBipCreateBuilder \<noteq> None
   \<and> b_referenceHash exampleBipCreateBuilder \<noteq> None"
  by (simp add: buildUnsigned_def validate_def exampleTransferBuilder_def exampleBipCreateBuilder_def
      create_def set_type_def set_network_def set_nonce_def set_recipient_def set_payload_def
      set_referenceHash_def)

text \<open>
  C6. A builder on which only the type TRANSFER, a network, a nonce and a recipient were
  set builds a record with version V1 and fee 0, and with a null token address.
\<close>

theorem builder_defaults:
  "buildUnsigned (set_recipient r (set_nonce n (set_network net (set_type TRANSFER (create now))))) =
     Inr \<lparr> version = V1, timestamp = now, type = TRANSFER, network = net, nonce = Some n,
           recipient = Some r, tokenAddress = None, amount = None, fee = 0, message = None,
           payload = None, referenceHash = None, signature = None \<rparr>
   \<and> Some NATIVE_TOKEN \<noteq> (None :: Address option)"
  by (simp add: buildUnsigned_def validate_def create_def set_type_def set_network_def set_nonce_def
      set_recipient_def)

text \<open>
  C9. \<open>encodePayload\<close> on a payload of \<open>createValidatorAddPayload\<close> or
  \<open>createValidatorRemovePayload\<close> produces no bytes: the payload type is undefined, and the
  write of the payload type raises a TypeError before the \<open>switch\<close>, whose default arm
  would raise the unknown payload type error.
\<close>

theorem validator_payload_encoding:
  "encodePayload P (Some (createValidatorAddPayload a)) v = Inl TypeError
   \<and> encodePayload P (Some (createValidatorRemovePayload a)) v = Inl TypeError
   \<and> payloadType (createValidatorAddPayload a) = None
   \<and> payloadType (createValidatorRemovePayload a) = None
   \<and> encodePayloadFields P (createValidatorAddPayload a) w = Inl UnknownPayloadType
   \<and> encodePayloadFields P (createValidatorRemovePayload a) w = Inl UnknownPayloadType"
  by (simp add: encodePayload_def writePayloadType_def createValidatorAddPayload_def
      createValidatorRemovePayload_def)

subsection \<open>The nonce position\<close>

lemma nonce_zero_parts:
  assumes "txElements P tx incl = Inr w" "nonce tx = Some 0"
  shows "encodedParts w ! 4 = [0xc1, 0x80]"
proof -
  from txElements_Inr[OF assms(1)] obtain a b c d rest where
    "w = a # b # c # d # (case nonce tx of None \<Rightarrow> ElemRaw [0xc0]
               | Some n \<Rightarrow> ElemList [ElemBytes (encodeScalar n)]) # rest"
    by blast
  then show ?thesis
    using assms(2)
    by (simp add: encodedParts_def encodeScalar_def encodeString_def encodeListHeader_def)
qed

lemma rlpDecodeItems_Nil: "rlpDecodeItems input = Inr [] \<Longrightarrow> input = []"
  by (cases input) (auto simp: bindE_eq_Inr split: sum.splits prod.splits)

lemma rlpDecodeItem_empty_list:
  assumes "rlpDecodeItem input = Inr (DList [], rest)"
  shows "input = 0xc0 # rest"
proof (cases input)
  case Nil
  with assms show ?thesis by simp
next
  case (Cons b r)
  define n where "n = unat b"
  have short: "n \<le> 0xf7 \<Longrightarrow> \<not> n \<le> 0xbf \<Longrightarrow> ?thesis"
  proof -
    assume hi: "n \<le> 0xf7" and lo: "\<not> n \<le> 0xbf"
    with assms Cons have l: "\<not> length r < n - 0xc0"
      and "bindE (rlpDecodeItems (take (n - 0xc0) r)) (\<lambda>decoded. Inr (DList decoded, drop (n - 0xc0) r))
           = Inr (DList [], rest)"
      by (auto simp: n_def Let_def split: if_splits)
    then have "rlpDecodeItems (take (n - 0xc0) r) = Inr []" and dr: "drop (n - 0xc0) r = rest"
      by (auto simp: bindE_eq_Inr)
    from rlpDecodeItems_Nil[OF this(1)] l have z: "n - 0xc0 = 0" by (cases r) auto
    with lo have "n = 0xc0" by simp
    moreover have "b = of_nat n" by (simp add: n_def)
    ultimately have "b = 0xc0" by simp
    with z dr Cons show ?thesis by simp
  qed
  have long: "\<not> n \<le> 0xf7 \<Longrightarrow> False"
  proof -
    assume hi: "\<not> n \<le> 0xf7"
    define ll where "ll = n - 0xf7"
    define len where "len = bytesValue (take ll r)"
    from assms Cons hi have g: "\<not> len < 56" "\<not> length (drop ll r) < len"
      and "bindE (rlpDecodeItems (take len (drop ll r)))
             (\<lambda>decoded. Inr (DList decoded, drop len (drop ll r))) = Inr (DList [], rest)"
      by (auto simp: n_def ll_def len_def Let_def split: if_splits)
    then have "rlpDecodeItems (take len (drop ll r)) = Inr []"
      by (auto simp: bindE_eq_Inr)
    from rlpDecodeItems_Nil[OF this] g show False by auto
  qed
  from assms Cons have "\<not> n \<le> 0xbf"
    by (auto simp: n_def Let_def split: if_splits)
  with short long show ?thesis by blast
qed

subsection \<open>What the decoder returns\<close>

lemma txElements_hash_update [simp]:
  "txElements P (tx \<lparr> hash := h \<rparr>) incl = txElements P tx incl"
  by (simp add: txElements_def Let_def cong: if_cong)

lemma encodeTx_hash_update [simp]:
  "encodeTx P (tx \<lparr> hash := h \<rparr>) incl = encodeTx P tx incl"
  by (cases "version tx") (simp add: encodeTx_def encodeTxV1_def)

lemma encodeTx_Inr_elements:
  "encodeTx P tx incl = Inr data \<Longrightarrow> \<exists>w. txElements P tx incl = Inr w"
  by (cases "version tx") (auto simp: encodeTx_def encodeTxV1_def bindE_eq_Inr)

lemma bindE_InrE:
  assumes "bindE m f = Inr y"
  obtains x where "m = Inr x" "f x = Inr y"
  using assms by (cases m) simp_all

lemma decodeTxV1_result:
  assumes "decodeTxV1 P items bs = Inr t"
  shows "\<exists>nonce' v. decodeOptionalBigint (nth_opt items 4) = Inr nonce'
           \<and> nonce t = Some (case nonce' of None \<Rightarrow> 0 | Some n \<Rightarrow> n)
           \<and> decodePayload P (nth_opt items 10) v = Inr (payload t)
           \<and> txSize t = length bs
           \<and> (\<exists>data. encodeTx P t True = Inr data)"
  using assms unfolding decodeTxV1_def Let_def
  apply (elim bindE_InrE)
  apply (simp only: sum.inject)
  apply hypsubst
  apply (simp only: encodeTx_hash_update)
  apply (clarsimp simp: hashTx_def bindE_eq_Inr)
  apply blast
  done

lemma decodeTx_result:
  assumes "decodeTx P bs = Inr t"
  shows "\<exists>items. rlpDecode bs = Inr (DList items) \<and> decodeTxV1 P items bs = Inr t"
proof -
  from assms have ne: "length bs \<noteq> 0"
    by (auto simp: decodeTx_def split: if_splits)
  with assms obtain decoded where d: "rlpDecode bs = Inr decoded"
    by (cases "rlpDecode bs") (simp_all add: decodeTx_def)
  show ?thesis
  proof (cases decoded)
    case (DBytes x)
    with assms ne d show ?thesis by (simp add: decodeTx_def)
  next
    case (DList items)
    with assms ne d have
      "bindE (bindE (decodeBigint (nth_opt items 0)) (\<lambda>c. txVersionFromCode (Number_bigint c)))
         (\<lambda>version'. case version' of V1 \<Rightarrow> decodeTxV1 P items bs) = Inr t"
      by (simp add: decodeTx_def split: if_splits)
    then obtain v where "(case v of V1 \<Rightarrow> decodeTxV1 P items bs) = Inr t"
      by (elim bindE_InrE)
    then have "decodeTxV1 P items bs = Inr t" by (cases v) simp
    with d DList show ?thesis by simp
  qed
qed

lemma decodeOptionalBigint_empty_list: "decodeOptionalBigint (Some (DList [])) = Inr None"
  by (simp add: decodeOptionalBigint_def isEmptyList_def)

text \<open>
  C10. A decoded transaction never has an absent nonce, and it can be encoded again. When
  the nonce item of the input is the empty list, the decoded nonce is 0, and every encoding
  of the decoded transaction has the two bytes 0xc1 0x80 at the nonce position, where the
  input has the empty list, whose only encoding is the byte 0xc0.
\<close>

theorem decoded_nonce_never_absent:
  assumes "decodeTx P bs = Inr t"
  shows "nonce t \<noteq> None
         \<and> (\<exists>w. txElements P t True = Inr w)
         \<and> (\<forall>items. rlpDecode bs = Inr (DList items) \<and> nth_opt items 4 = Some (DList []) \<longrightarrow>
               nonce t = Some 0
               \<and> (\<forall>incl w. txElements P t incl = Inr w \<longrightarrow> encodedParts w ! 4 = [0xc1, 0x80]))
         \<and> (\<forall>input rest. rlpDecodeItem input = Inr (DList [], rest) \<longrightarrow> input = 0xc0 # rest)"
proof -
  from decodeTx_result[OF assms] obtain items where
    d: "rlpDecode bs = Inr (DList items)" and v1: "decodeTxV1 P items bs = Inr t" by blast
  from decodeTxV1_result[OF v1] obtain nonce' data where
    n: "decodeOptionalBigint (nth_opt items 4) = Inr nonce'" and
    nt: "nonce t = Some (case nonce' of None \<Rightarrow> 0 | Some n \<Rightarrow> n)" and
    e: "encodeTx P t True = Inr data" by blast
  have a: "nonce t \<noteq> None" using nt by simp
  have b: "\<exists>w. txElements P t True = Inr w" using encodeTx_Inr_elements[OF e] .
  have c: "\<forall>items'. rlpDecode bs = Inr (DList items') \<and> nth_opt items' 4 = Some (DList []) \<longrightarrow>
               nonce t = Some 0
               \<and> (\<forall>incl w. txElements P t incl = Inr w \<longrightarrow> encodedParts w ! 4 = [0xc1, 0x80])"
  proof (intro allI impI)
    fix items' assume h: "rlpDecode bs = Inr (DList items') \<and> nth_opt items' 4 = Some (DList [])"
    with d have "items' = items" by simp
    with h n have "nonce' = None" by (simp add: decodeOptionalBigint_empty_list)
    with nt have z: "nonce t = Some 0" by simp
    have "\<forall>incl w. txElements P t incl = Inr w \<longrightarrow> encodedParts w ! 4 = [0xc1, 0x80]"
      using nonce_zero_parts z by blast
    with z show "nonce t = Some 0
               \<and> (\<forall>incl w. txElements P t incl = Inr w \<longrightarrow> encodedParts w ! 4 = [0xc1, 0x80])"
      by simp
  qed
  have e: "\<forall>input rest. rlpDecodeItem input = Inr (DList [], rest) \<longrightarrow> input = 0xc0 # rest"
    using rlpDecodeItem_empty_list by blast
  from a b c e show ?thesis by blast
qed

lemma bitLength_le: "n < 2 ^ k \<Longrightarrow> bitLength n \<le> k"
proof (induction k arbitrary: n)
  case 0
  then show ?case by (subst bitLength.simps) simp
next
  case (Suc k)
  then have "n div 2 < 2 ^ k" by auto
  from Suc.IH[OF this] show ?case by (subst bitLength.simps) simp
qed

lemma Number_bigint_small:
  assumes "0 \<le> v" "v < 2 ^ 53"
  shows "Number_bigint v = Num v"
proof -
  have a: "nat \<bar>v\<bar> < 2 ^ 53" using assms by (simp add: nat_less_iff)
  then have e: "bitLength (nat \<bar>v\<bar>) - 53 = 0" using bitLength_le[OF a] by simp
  have "(2::nat) ^ 53 \<le> 2 ^ 1024" by (rule power_increasing) simp_all
  with a have m: "\<not> (2::nat) ^ 1024 \<le> nat \<bar>v\<bar>" by linarith
  show ?thesis
    unfolding Number_bigint_def Let_def e using m assms by simp
qed

lemma hexPairs_pad2:
  "hexPairs (padStart 2 (CHR ''0'') (toString16 (unat (b :: byte))) @ rest) = b # hexPairs rest"
proof -
  have d: "unat b div 16 < 16" "unat b mod 16 < 16"
    using unat_byte_less[of b] by simp_all
  have "toUint8 (parseInt16 [hexChar (unat b div 16), hexChar (unat b mod 16)]) = of_nat (unat b)"
    using toUint8_pair[OF d] by simp
  then show ?thesis by (simp add: pad2_byte)
qed

lemma hexToBytes_bytesToHex [simp]: "hexToBytes (bytesToHex bs) = bs"
proof -
  have "hexPairs (concat (map (\<lambda>b. padStart 2 (CHR ''0'') (toString16 (unat b))) bs)) = bs"
    by (induction bs) (simp_all add: hexPairs_pad2)
  then show ?thesis by (simp add: hexToBytes_def bytesToHex_def)
qed

lemma bytesToHex_nonempty [simp]: "bytesToHex bs \<noteq> []"
  by (simp add: bytesToHex_def)

lemma rlpDecode_absent_nonce:
  "\<exists>items. rlpDecode exampleWireAbsentNonce = Inr (DList items) \<and> nth_opt items 4 = Some (DList [])"
  by (simp add: rlpDecode_def exampleWireAbsentNonce_def replicate_numeral_cons
      Let_def bytesValue_def nth_opt_def)

lemma parseInt16_00: "toUint8 (parseInt16 ''00'') = 0"
  using toUint8_pair[of 0 0] by (simp add: zero_char_hexChar[symmetric])

lemma toLowerCaseChar_0: "toLowerCaseChar (CHR ''0'') = CHR ''0''"
  by (simp add: toLowerCaseChar_def)

lemma toLowerCaseChar_x: "toLowerCaseChar (CHR ''x'') = CHR ''x''"
  by (simp add: toLowerCaseChar_def)

lemma toHash_hex_exampleHash: "toHash_hex exampleHash = Inr exampleHash"
  by (simp add: toHash_hex_def exampleHash_def hexToBytes_def parseInt16_00 HASH_SIZE_def
      toLowerCase_def toLowerCaseChar_0 toLowerCaseChar_x)

lemma toAddress_hex_exampleHash: "toAddress_hex (''0x'' @ sliceLast40 exampleHash) = Inr ZERO_ADDRESS"
  by (simp add: toAddress_hex_def exampleHash_def sliceLast40_def hexToBytes_def parseInt16_00
      ADDRESS_SIZE_def toLowerCase_def toLowerCaseChar_0 toLowerCaseChar_x ZERO_ADDRESS_def)

lemma toAddress_hex_exampleHash_cons:
  "toAddress_hex (CHR ''0'' # CHR ''x'' # sliceLast40 exampleHash) = Inr ZERO_ADDRESS"
  using toAddress_hex_exampleHash by simp

lemma hashData_example: "hashData examplePlatform data = Inr exampleHash"
  by (simp add: hashData_def examplePlatform_def toHash_hex_exampleHash)

lemma length_hexToBytes_exampleSignature: "length (hexToBytes exampleSignature) = 65"
  by (simp add: exampleSignature_def hexToBytes_def)

lemma recoverAddress_example:
  "length (hexToBytes sg) = 65 \<Longrightarrow> hexToBytes sg ! 64 = 27 \<Longrightarrow>
   recoverAddress examplePlatform h sg = Inr ZERO_ADDRESS"
proof -
  assume len: "length (hexToBytes sg) = 65" and v: "hexToBytes sg ! 64 = 27"
  have r: "BigInt_hex (bytesToHex (take 32 (hexToBytes sg))) = Inr (int (bytesValue (take 32 (hexToBytes sg))))"
    using len by (intro BigInt_hex_bytesToHex) auto
  have s: "BigInt_hex (bytesToHex (take 32 (drop 32 (hexToBytes sg)))) =
           Inr (int (bytesValue (take 32 (drop 32 (hexToBytes sg)))))"
    using len by (intro BigInt_hex_bytesToHex) auto
  show ?thesis
    unfolding recoverAddress_def Let_def r s
    using len v by (simp add: examplePlatform_def toAddress_hex_exampleHash_cons)
qed

lemmas decode_eval =
  decodeTx_def decodeTxV1_def rlpDecode_def Let_def
  bytesValue_def nth_opt_def decodeBigint_def decodeScalarItem_def decodeScalar_value
  Number_bigint_small txVersionFromCode_def txTypeFromCode_def networkFromCode_def
  decodeOptionalBigint_def isEmptyList_def decodeOptionalAddress_def decodeOptionalBytes_def
  valueLength_def decodeAddress_def toAddress_bytes_def ADDRESS_SIZE_def
  decodePayload_def decodePayloadList_def decodeOptionalHash_def decodeSignatureItem_def
  toSignature_bytes_def SIGNATURE_SIZE_def decodeInt_def txPayloadTypeFromCode_def
  TxPayloadType_members_def decodeString_def decodeOptionalString_def

lemmas encode_eval =
  hashForSigning_def hashTx_def encodeTx_def encodeTxV1_def txElements_def writer_eqs
  BigInt_number_def encodePayload_def EMPTY_LIST_def isEmptyPayload_def truthy_def
  writePayloadType_def orNull_def encodeString_utf8_def

subsection \<open>Inputs with a list where a byte string is expected\<close>

lemma rlpDecode_nested:
  "rlpDecode [0xc2, 0xc1, 0xc0] = Inr (DList [DList [DList []]])"
  "rlpDecode [0xc2, 0xc1, 0x01] = Inr (DList [DList [DBytes [1]]])"
  "rlpDecode [0xc3, 0xc2, 0x09, 0x01] = Inr (DList [DList [DBytes [9], DBytes [1]]])"
  by (simp_all add: rlpDecode_def Let_def)

lemma toString10_digit: "n < 10 \<Longrightarrow> toString10 n = [hexChar n]"
  by (subst toString10.simps) simp

lemma decodeScalar_array_examples:
  "decodeScalar_array [DBytes [5]] = Inr 5"
  "decodeScalar_array [DBytes [200]] = Inr 512"
  "decodeScalar_array [DBytes [5, 6]] = Inl SyntaxError"
  "decodeScalar_array [DList []] = Inr 0"
  "decodeScalar_array [DBytes [1], DBytes [2]] = Inr 258"
  by (simp_all add: decodeScalar_array_def bytesToHex_array_def replicate_numeral_cons
      toString10.simps padStart_def BigInt_hex_def isHexDigit_def hexDigitValue_def hexChar_def
      hexValue_def)

lemma decodeBigint_list_of_byte: "decodeBigint (Some (DList [DBytes [5]])) = Inr 5"
  by (simp add: decodeBigint_def decodeScalarItem_def decodeScalar_array_examples)

lemma encodeString_array_examples:
  "encodeString_array [] = [0x80]"
  "encodeString_array [DBytes [5]] = [5]"
  "encodeString_array [DBytes [200]] = [0x81, 200]"
  "encodeString_array [DBytes [5, 6]] = [0x81, 0]"
  "encodeString_array [DList [], DBytes [7]] = [0x82, 0, 7]"
  by (simp_all add: encodeString_array_def ToNumber_def StringToNumber_def toString10.simps
      isDecimalDigit_def decimalValue_def hexChar_def toUint8_def)

lemma decodeTx_exampleWireUntyped:
  "\<exists>t. decodeTx examplePlatform exampleWireUntyped = Inr t
      \<and> nonce t = Some 0 \<and> fee t = 5 \<and> message t = Some (DList [])
      \<and> payload t = Some (VotePayload (Num 1))"
  by (simp add: exampleWireUntyped_def replicate_numeral_cons decode_eval encode_eval
      hashData_example recoverAddress_example decodeScalar_array_examples writeBytes_value_def)

lemma rlpDecode_exampleWireUntyped:
  "\<exists>items. rlpDecode exampleWireUntyped = Inr (DList items) \<and> nth_opt items 4 = Some (DList [])"
  by (simp add: rlpDecode_def exampleWireUntyped_def replicate_numeral_cons
      Let_def bytesValue_def nth_opt_def)

theorem decoded_nonce_never_absent_witness:
  "(\<exists>t items. decodeTx examplePlatform exampleWireAbsentNonce = Inr t
      \<and> rlpDecode exampleWireAbsentNonce = Inr (DList items)
      \<and> nth_opt items 4 = Some (DList [])
      \<and> nonce t = Some 0
      \<and> (\<exists>w. txElements examplePlatform t True = Inr w \<and> encodedParts w ! 4 = [0xc1, 0x80]))
   \<and> (\<exists>t items. decodeTx examplePlatform exampleWireUntyped = Inr t
      \<and> rlpDecode exampleWireUntyped = Inr (DList items)
      \<and> nth_opt items 4 = Some (DList [])
      \<and> fee t = 5 \<and> message t = Some (DList []) \<and> payload t = Some (VotePayload (Num 1))
      \<and> nonce t = Some 0
      \<and> (\<exists>w. txElements examplePlatform t True = Inr w \<and> encodedParts w ! 4 = [0xc1, 0x80]))"
proof -
  obtain items where i: "rlpDecode exampleWireAbsentNonce = Inr (DList items)"
    "nth_opt items 4 = Some (DList [])"
    using rlpDecode_absent_nonce by blast
  obtain t where t: "decodeTx examplePlatform exampleWireAbsentNonce = Inr t"
    by (simp add: exampleWireAbsentNonce_def replicate_numeral_cons decode_eval encode_eval hashData_example
        recoverAddress_example)
  from decoded_nonce_never_absent[OF t] i
  have "nonce t = Some 0
      \<and> (\<exists>w. txElements examplePlatform t True = Inr w \<and> encodedParts w ! 4 = [0xc1, 0x80])"
    by blast
  with t i have a: "\<exists>t items. decodeTx examplePlatform exampleWireAbsentNonce = Inr t
      \<and> rlpDecode exampleWireAbsentNonce = Inr (DList items)
      \<and> nth_opt items 4 = Some (DList [])
      \<and> nonce t = Some 0
      \<and> (\<exists>w. txElements examplePlatform t True = Inr w \<and> encodedParts w ! 4 = [0xc1, 0x80])"
    by blast
  obtain items' where i': "rlpDecode exampleWireUntyped = Inr (DList items')"
    "nth_opt items' 4 = Some (DList [])"
    using rlpDecode_exampleWireUntyped by blast
  obtain t' where t': "decodeTx examplePlatform exampleWireUntyped = Inr t'"
    and f: "fee t' = 5" "message t' = Some (DList [])" "payload t' = Some (VotePayload (Num 1))"
    using decodeTx_exampleWireUntyped by blast
  from decoded_nonce_never_absent[OF t'] i'
  have "nonce t' = Some 0
      \<and> (\<exists>w. txElements examplePlatform t' True = Inr w \<and> encodedParts w ! 4 = [0xc1, 0x80])"
    by blast
  with t' i' f have b: "\<exists>t items. decodeTx examplePlatform exampleWireUntyped = Inr t
      \<and> rlpDecode exampleWireUntyped = Inr (DList items)
      \<and> nth_opt items 4 = Some (DList [])
      \<and> fee t = 5 \<and> message t = Some (DList []) \<and> payload t = Some (VotePayload (Num 1))
      \<and> nonce t = Some 0
      \<and> (\<exists>w. txElements examplePlatform t True = Inr w \<and> encodedParts w ! 4 = [0xc1, 0x80])"
    by blast
  from a b show ?thesis by blast
qed

subsection \<open>Decoded TOKEN_CREATE payloads\<close>

lemma decodePayloadFields_TokenCreate:
  "decodePayloadFields P ty data = Inr (TokenCreatePayload n u d w l m b) \<Longrightarrow>
   w \<noteq> None \<and> l \<noteq> None \<and> m \<noteq> None"
  by (cases ty) (auto simp: bindE_eq_Inr)

lemma decodePayloadList_TokenCreate:
  "decodePayloadList P xs = Inr (Some (TokenCreatePayload n u d w l m b)) \<Longrightarrow>
   w \<noteq> None \<and> l \<noteq> None \<and> m \<noteq> None"
  unfolding decodePayloadList_def Let_def
  by (auto simp: bindE_eq_Inr split: if_splits dest!: decodePayloadFields_TokenCreate)

lemma decodePayload_TokenCreate:
  assumes "decodePayload P x v = Inr (Some (TokenCreatePayload n u d w l m b))"
  shows "w \<noteq> None \<and> l \<noteq> None \<and> m \<noteq> None"
proof (cases x)
  case None
  with assms show ?thesis by (simp add: decodePayload_def)
next
  case (Some item)
  show ?thesis
  proof (cases item)
    case (DList xs)
    with assms Some show ?thesis
      by (auto simp: decodePayload_def dest!: decodePayloadList_TokenCreate)
  next
    case (DBytes bs)
    with assms Some have
      "bindE (rlpDecode bs) (\<lambda>decoded. case decoded of
                 DBytes _ \<Rightarrow> Inl InvalidPayloadExpectedList
               | DList xs \<Rightarrow> decodePayloadList P xs) = Inr (Some (TokenCreatePayload n u d w l m b))"
      by (simp add: decodePayload_def split: if_splits)
    then obtain decoded where
      "(case decoded of DBytes _ \<Rightarrow> Inl InvalidPayloadExpectedList
        | DList xs \<Rightarrow> decodePayloadList P xs) = Inr (Some (TokenCreatePayload n u d w l m b))"
      by (elim bindE_InrE)
    then show ?thesis
      by (cases decoded) (auto dest!: decodePayloadList_TokenCreate)
  qed
qed

text \<open>
  C1. The round trip fails on the payload field: when the TOKEN_CREATE payload of a
  transaction has a null website, logo or maximal supply, no decoding of its encoding, on
  any platform, has the same payload, since the decoder replaces a null website or logo by
  the empty string and a null maximal supply by 0.
\<close>

theorem roundtrip_loses_null_token_create_fields:
  assumes "payload t = Some (TokenCreatePayload n u d w l m b)"
    and "w = None \<or> l = None \<or> m = None"
    and "encodeTx P t True = Inr bs"
    and "decodeTx P bs = Inr t'"
  shows "payload t' \<noteq> payload t"
proof
  assume eq: "payload t' = payload t"
  from decodeTx_result[OF assms(4)] obtain items where "decodeTxV1 P items bs = Inr t'" by blast
  from decodeTxV1_result[OF this] obtain v where
    "decodePayload P (nth_opt items 10) v = Inr (payload t')" by blast
  with eq assms(1) have "decodePayload P (nth_opt items 10) v = Inr (Some (TokenCreatePayload n u d w l m b))"
    by simp
  from decodePayload_TokenCreate[OF this] assms(2) show False by blast
qed

lemma example_chars: "map (\<lambda>b. char_of (unat (b :: byte))) [84, 111, 107] = ''Tok''"
  "map (\<lambda>b. char_of (unat (b :: byte))) [116] = ''t''"
  by code_simp+

lemma example_bytes: "map (\<lambda>c. of_nat (of_char c)) ''Tok'' = [84, 111, 107 :: byte]"
  "map (\<lambda>c. of_nat (of_char c)) ''t'' = [116 :: byte]"
  by simp_all

lemma encodeTx_exampleTokenCreate:
  "encodeTx examplePlatform exampleTokenCreate True = Inr exampleTokenCreateWire"
  by (simp add: exampleTokenCreate_def exampleTokenCreateWire_def replicate_numeral_cons encode_eval examplePlatform_def
      encode_def encodeElements_def encodedParts_def encodeScalar_nonneg minimalBytes.simps
      encodeString_def encodeListHeader_def encodeLengthBytes_def exampleSignature_def
      hexToBytes_def toUint8_def parseInt16_def isStrWhiteSpaceChar_def isHexDigit_def
      hexDigitValue_def hexValue_def)


lemma TextDecoder_example:
  "TextDecoder_decode examplePlatform bs = map (\<lambda>b. char_of (unat b)) bs"
  by (simp add: examplePlatform_def)

lemma TextEncoder_example:
  "TextEncoder_encode examplePlatform str = map (\<lambda>c. of_nat (of_char c)) str"
  by (simp add: examplePlatform_def)

lemma example_char_codes:
  "char_of (84 :: nat) = CHR ''T''" "char_of (111 :: nat) = CHR ''o''"
  "char_of (107 :: nat) = CHR ''k''" "char_of (116 :: nat) = CHR ''t''"
  by code_simp+

lemma decode_exampleTokenCreateWire:
  "\<exists>t'. decodeTx examplePlatform exampleTokenCreateWire = Inr t'
      \<and> payload t' = Some (TokenCreatePayload ''Tok'' ''t'' (Num 8) (Some []) (Some []) (Some 0) False)
      \<and> txSize t' = 97
      \<and> encodeTx examplePlatform t' True \<noteq> Inr exampleTokenCreateWire"
  by (simp add: exampleTokenCreateWire_def replicate_numeral_cons decode_eval encode_eval hashData_example
      recoverAddress_example TextDecoder_example TextEncoder_example example_char_codes
      encode_def encodeElements_def encodedParts_def encodeScalar_nonneg minimalBytes.simps
      encodeString_def encodeListHeader_def encodeLengthBytes_def)

theorem roundtrip_loses_null_token_create_fields_witness:
  "encodeTx examplePlatform exampleTokenCreate True = Inr exampleTokenCreateWire
   \<and> (\<exists>t'. decodeTx examplePlatform exampleTokenCreateWire = Inr t'
         \<and> payload t' = Some (TokenCreatePayload ''Tok'' ''t'' (Num 8) (Some []) (Some []) (Some 0) False)
         \<and> payload t' \<noteq> payload exampleTokenCreate
         \<and> encodeTx examplePlatform t' True \<noteq> Inr exampleTokenCreateWire)"
proof -
  from decode_exampleTokenCreateWire obtain t' where
    d: "decodeTx examplePlatform exampleTokenCreateWire = Inr t'" and
    p: "payload t' = Some (TokenCreatePayload ''Tok'' ''t'' (Num 8) (Some []) (Some []) (Some 0) False)" and
    e: "encodeTx examplePlatform t' True \<noteq> Inr exampleTokenCreateWire"
    by blast
  have p0: "payload exampleTokenCreate =
      Some (TokenCreatePayload ''Tok'' ''t'' (Num 8) None None None False)"
    by (simp add: exampleTokenCreate_def)
  have "payload t' \<noteq> payload exampleTokenCreate"
    using roundtrip_loses_null_token_create_fields[OF p0 _ encodeTx_exampleTokenCreate d] by simp
  with d p e encodeTx_exampleTokenCreate show ?thesis by blast
qed

lemma hexChar_example:
  "hexChar 1 = CHR ''1''" "hexChar (Suc 0) = CHR ''1''" "hexChar 11 = CHR ''b''" "hexChar 0 = CHR ''0''"
  by code_simp+

lemma example_rBytes:
  "hexToBytes (CHR ''0'' # CHR ''x'' # padStart 64 (CHR ''0'') (bigintToString16 exampleR)) =
     replicate 32 1"
  by (simp add: replicate_numeral_cons exampleR_def bigintToString16_def toString16.simps padStart_def zero_char_hexChar
      hexToBytes_def toUint8_pair)

lemma example_signature_hex:
  "bytesToHex (replicate 64 1 @ [27]) = exampleSignature"
  by (simp add: replicate_numeral_cons bytesToHex_def pad2_byte hexChar_example
      exampleSignature_def)

lemma example_low_s: "\<not> exampleR > HALF_CURVE_ORDER"
  by (simp add: exampleR_def HALF_CURVE_ORDER_def CURVE_N_def)

lemma PrivateKey_sign_example: "PrivateKey_sign examplePlatform key h = Inr exampleSignature"
  by (simp add: PrivateKey_sign_def examplePlatform_def example_low_s example_rBytes Let_def
      setAt_def toSignature_bytes_def SIGNATURE_SIZE_def replicate_numeral_cons bytesToHex_def
      pad2_byte hexChar_example exampleSignature_def)

lemma getAddress_example: "getAddress examplePlatform key = Inr ZERO_ADDRESS"
  by (simp add: getAddress_def Let_def examplePlatform_def toAddress_hex_exampleHash_cons)

text \<open>The example transaction is the one \<open>sign\<close> builds.\<close>

lemma sign_exampleTokenCreate:
  "sign examplePlatform key exampleTokenCreateBuilder = Inr exampleTokenCreate"
proof -
  have b: "buildUnsigned exampleTokenCreateBuilder =
      Inr \<lparr> version = V1, timestamp = Num 1000, type = BIP_CREATE, network = MAINNET, nonce = Some 3,
       recipient = None, tokenAddress = None, amount = None, fee = 200, message = None,
       payload = Some (TokenCreatePayload ''Tok'' ''t'' (Num 8) None None None False),
       referenceHash = None, signature = None \<rparr>"
    by (simp add: buildUnsigned_def validate_def exampleTokenCreateBuilder_def
      createTokenCreatePayload_def create_def set_type_def set_network_def set_nonce_def set_fee_def
      set_payload_def)
  have h: "hashForSigning examplePlatform tx = Inr exampleHash
           \<or> (\<exists>e. encodeTx examplePlatform tx False = Inl e)" for tx :: UnsignedTx
    by (cases "encodeTx examplePlatform tx False") (simp_all add: hashForSigning_def hashData_example)
  have x: "UnsignedTx.extend
       \<lparr> version = V1, timestamp = Num 1000, type = BIP_CREATE, network = MAINNET, nonce = Some 3,
       recipient = None, tokenAddress = None, amount = None, fee = 200, message = None,
       payload = Some (TokenCreatePayload ''Tok'' ''t'' (Num 8) None None None False),
       referenceHash = None, signature = Some exampleSignature \<rparr> (Tx.fields ZERO_ADDRESS [] 0)
      = exampleTokenCreate \<lparr> hash := [], txSize := 0 \<rparr>"
    by (simp add: UnsignedTx.defs Tx.defs exampleTokenCreate_def)
  have u: "encodeTx P (tx \<lparr> txSize := n \<rparr>) incl = encodeTx P tx incl" for P n incl and tx :: Tx
    by (cases "version tx")
      (simp add: encodeTx_def encodeTxV1_def txElements_def Let_def cong: if_cong)
  have e: "encodeTx examplePlatform (exampleTokenCreate \<lparr> hash := a, txSize := n \<rparr>) True =
           Inr exampleTokenCreateWire" for a n
    using encodeTx_exampleTokenCreate by (simp add: u)
  have l: "length exampleTokenCreateWire = 97" by (simp add: exampleTokenCreateWire_def replicate_numeral_cons)
  have f: "exampleTokenCreate \<lparr> hash := exampleHash, txSize := 97 \<rparr> = exampleTokenCreate"
    by (simp add: exampleTokenCreate_def)
  have s: "encodeTx examplePlatform
       \<lparr> version = V1, timestamp = Num 1000, type = BIP_CREATE, network = MAINNET, nonce = Some 3,
       recipient = None, tokenAddress = None, amount = None, fee = 200, message = None,
       payload = Some (TokenCreatePayload ''Tok'' ''t'' (Num 8) None None None False),
       referenceHash = None, signature = None \<rparr> False \<noteq> Inl err" for err
    by (simp add: encode_eval TextEncoder_example Let_def)
  show ?thesis
    unfolding sign_def b bindE_Inr Let_def
    apply (simp add: hashForSigning_def hashData_example bindE_eq_Inr PrivateKey_sign_example
        getAddress_example x hashTx_def sizeTx_def e l f)
    apply (cases "encodeTx examplePlatform
       \<lparr> version = V1, timestamp = Num 1000, type = BIP_CREATE, network = MAINNET, nonce = Some 3,
       recipient = None, tokenAddress = None, amount = None, fee = 200, message = None,
       payload = Some (TokenCreatePayload ''Tok'' ''t'' (Num 8) None None None False),
       referenceHash = None, signature = None \<rparr> False")
     apply (simp_all add: s)
    done
qed

end
